theory Spec2Isabelle
  imports Complex_Main
begin

section \<open>JavaScript values\<close>

text \<open>
  The values that \<^verbatim>\<open>main.js\<close> handles: what \<^verbatim>\<open>JSON.parse\<close> returns (null,
  booleans, numbers, strings, arrays, objects) and \<^verbatim>\<open>undefined\<close>, which a lookup of
  a missing property yields. A string is the list of its characters, an array the list of
  its elements, an object the list of its own properties in insertion order (one entry
  per key, as \<^verbatim>\<open>JSON.parse\<close> builds it). A number is the rational it denotes; the
  program never computes with a number of the dataset.
\<close>

datatype jsval =
    JUndefined
  | JNull
  | JBool bool
  | JNum rat
  | JStr string
  | JArr "jsval list"
  | JObj "(string \<times> jsval) list"

text \<open>Truthiness, as \<^verbatim>\<open>!item\<close> and \<^verbatim>\<open>a || b\<close> test it.\<close>

fun truthy :: "jsval \<Rightarrow> bool" where
  "truthy JUndefined = False"
| "truthy JNull = False"
| "truthy (JBool b) = b"
| "truthy (JNum n) = (n \<noteq> 0)"
| "truthy (JStr s) = (s \<noteq> [])"
| "truthy (JArr xs) = True"
| "truthy (JObj fs) = True"

section \<open>Errors\<close>

text \<open>
  An error object: its class name, its message and the \<^verbatim>\<open>statusCode\<close> property,
  which only some classes set.
\<close>

record js_error =
  name :: string
  message :: string
  statusCode :: "int option"

definition HTTP_STATUS_OK :: int where
  "HTTP_STATUS_OK = 200"

definition HTTP_STATUS_BAD_REQUEST :: int where
  "HTTP_STATUS_BAD_REQUEST = 400"

definition HTTP_STATUS_NOT_FOUND :: int where
  "HTTP_STATUS_NOT_FOUND = 404"

definition HTTP_STATUS_INTERNAL_SERVER_ERROR :: int where
  "HTTP_STATUS_INTERNAL_SERVER_ERROR = 500"

definition NotFoundError :: "string \<Rightarrow> js_error" where
  "NotFoundError msg =
     \<lparr>name = ''NotFoundError'', message = msg, statusCode = Some HTTP_STATUS_NOT_FOUND\<rparr>"

definition ValidationError :: "string \<Rightarrow> js_error" where
  "ValidationError msg =
     \<lparr>name = ''ValidationError'', message = msg, statusCode = Some HTTP_STATUS_BAD_REQUEST\<rparr>"

text \<open>The built-in classes \<^verbatim>\<open>Error\<close> and \<^verbatim>\<open>TypeError\<close> set no status code.\<close>

definition Error :: "string \<Rightarrow> js_error" where
  "Error msg = \<lparr>name = ''Error'', message = msg, statusCode = None\<rparr>"

definition TypeError :: "string \<Rightarrow> js_error" where
  "TypeError msg = \<lparr>name = ''TypeError'', message = msg, statusCode = None\<rparr>"

section \<open>The identifier validator\<close>

text \<open>
  The regular expressions that \<^verbatim>\<open>GUID_REGEX\<close> needs: a sequence of atoms, each
  repeated a fixed number of times, anchored at both ends (\<^verbatim>\<open>^\<close> ... \<^verbatim>\<open>$\<close>, no
  multiline flag), with the \<^verbatim>\<open>i\<close> flag or without. An atom is a literal character or
  a class of character ranges.
\<close>

datatype rx_atom = Lit char | Ranges "(char \<times> char) list"

record regexp =
  pieces :: "(rx_atom \<times> nat) list"
  ignoreCase :: bool

definition in_range :: "char \<Rightarrow> char \<Rightarrow> char \<Rightarrow> bool" where
  "in_range lo hi c \<longleftrightarrow> (of_char lo :: nat) \<le> of_char c \<and> (of_char c :: nat) \<le> of_char hi"

definition toUpperCase :: "char \<Rightarrow> char" where
  "toUpperCase c =
     (if in_range (CHR ''a'') (CHR ''z'') c then char_of ((of_char c :: nat) - 32) else c)"

definition toLowerCase :: "char \<Rightarrow> char" where
  "toLowerCase c =
     (if in_range (CHR ''A'') (CHR ''Z'') c then char_of ((of_char c :: nat) + 32) else c)"

text \<open>
  With the \<^verbatim>\<open>i\<close> flag a character matches an atom when some character of the atom
  has the same upper-case form: the character itself, its upper-case or its lower-case
  form is in the atom.
\<close>

fun atom_matches :: "bool \<Rightarrow> rx_atom \<Rightarrow> char \<Rightarrow> bool" where
  "atom_matches ic (Lit d) c = (if ic then toUpperCase c = toUpperCase d else c = d)"
| "atom_matches ic (Ranges rs) c =
     list_ex (\<lambda>(lo, hi). in_range lo hi c \<or>
        (ic \<and> (in_range lo hi (toUpperCase c) \<or> in_range lo hi (toLowerCase c)))) rs"

fun pieces_match :: "bool \<Rightarrow> (rx_atom \<times> nat) list \<Rightarrow> string \<Rightarrow> bool" where
  "pieces_match ic [] s = (s = [])"
| "pieces_match ic ((a, n) # ps) s =
     (n \<le> length s \<and> list_all (atom_matches ic a) (take n s) \<and> pieces_match ic ps (drop n s))"

definition regexp_test :: "regexp \<Rightarrow> string \<Rightarrow> bool" where
  "regexp_test r s = pieces_match (ignoreCase r) (pieces r) s"

definition hex_class :: rx_atom where
  "hex_class = Ranges [(CHR ''0'', CHR ''9''), (CHR ''a'', CHR ''f'')]"

definition GUID_REGEX :: regexp where
  "GUID_REGEX =
     \<lparr>pieces = [(hex_class, 8), (Lit (CHR ''-''), 1), (hex_class, 4), (Lit (CHR ''-''), 1),
                (hex_class, 4), (Lit (CHR ''-''), 1), (hex_class, 4), (Lit (CHR ''-''), 1),
                (hex_class, 12)],
      ignoreCase = True\<rparr>"

definition isValidGuid :: "jsval \<Rightarrow> bool" where
  "isValidGuid guid = (case guid of JStr s \<Rightarrow> regexp_test GUID_REGEX s | _ \<Rightarrow> False)"

text \<open>
  The layout in the words of the specification: five groups of hexadecimal digits, of
  8, 4, 4, 4 and 12 characters, separated by hyphens; a hexadecimal digit is a decimal
  digit or a letter from a to f in either case.
\<close>

definition hex_digit :: "char \<Rightarrow> bool" where
  "hex_digit c \<longleftrightarrow>
     in_range (CHR ''0'') (CHR ''9'') c \<or> in_range (CHR ''a'') (CHR ''f'') c \<or>
     in_range (CHR ''A'') (CHR ''F'') c"

definition guid_layout :: "string \<Rightarrow> bool" where
  "guid_layout s \<longleftrightarrow>
     (\<exists>g1 g2 g3 g4 g5.
        s = g1 @ ''-'' @ g2 @ ''-'' @ g3 @ ''-'' @ g4 @ ''-'' @ g5 \<and>
        length g1 = 8 \<and> length g2 = 4 \<and> length g3 = 4 \<and> length g4 = 4 \<and> length g5 = 12 \<and>
        list_all hex_digit (g1 @ g2 @ g3 @ g4 @ g5))"

section \<open>The runtime\<close>

text \<open>
  What the program takes from Node.js and from its environment, as parameters of the
  model: the environment variable \<^verbatim>\<open>DATA_FILE_PATH\<close>, \<^verbatim>\<open>path.resolve\<close>,
  \<^verbatim>\<open>fs.readFile\<close> with the encoding \<^verbatim>\<open>utf8\<close> (the message of the error, or the
  text of the file), \<^verbatim>\<open>JSON.parse\<close> (the message of the syntax error, or the value),
  \<^verbatim>\<open>decodeURIComponent\<close> (nothing when it throws a \<^verbatim>\<open>URIError\<close>) and the
  \<^verbatim>\<open>pathname\<close> of \<^verbatim>\<open>url.parse\<close>.
\<close>

record runtime =
  env_DATA_FILE_PATH :: "string option"
  path_resolve :: "string \<Rightarrow> string"
  fs_readFile :: "string \<Rightarrow> string + string"
  JSON_parse :: "string \<Rightarrow> string + jsval"
  decodeURIComponent :: "string \<Rightarrow> string option"
  url_parse_pathname :: "string \<Rightarrow> string"

text \<open>
  What differs from one request to the next: the clock and the random number generator.
  \<^verbatim>\<open>Math_random_toString36\<close> is \<^verbatim>\<open>Math.random().toString(36)\<close>,
  \<^verbatim>\<open>Date_toISOString\<close> is \<^verbatim>\<open>new Date().toISOString()\<close>.
\<close>

record clock =
  Date_now :: nat
  Math_random_toString36 :: string
  Date_toISOString :: string

text \<open>The effects of a request, in the order in which they happen.\<close>

datatype event =
    ReadFile string
  | LoggerError string
  | LoggerWarn string
  | LoggerInfo string

text \<open>Decimal notation, for the numbers that template literals print.\<close>

fun show_nat :: "nat \<Rightarrow> string" where
  "show_nat n =
     (if n < 10 then [char_of (48 + n)] else show_nat (n div 10) @ [char_of (48 + n mod 10)])"

declare show_nat.simps [simp del]

definition show_int :: "int \<Rightarrow> string" where
  "show_int i = (if i < 0 then CHR ''-'' # show_nat (nat (- i)) else show_nat (nat i))"

section \<open>The data loader\<close>

definition DEFAULT_DATA_FILE :: string where
  "DEFAULT_DATA_FILE = ''data.json''"

definition DATA_FILE_PATH :: "runtime \<Rightarrow> string" where
  "DATA_FILE_PATH rt =
     (case env_DATA_FILE_PATH rt of
        None \<Rightarrow> DEFAULT_DATA_FILE
      | Some p \<Rightarrow> if p = [] then DEFAULT_DATA_FILE else p)"

text \<open>
  \<^verbatim>\<open>loadData\<close>: the \<^verbatim>\<open>try\<close> block reads the file and parses its text; whatever
  either step throws is logged and thrown again as an \<^verbatim>\<open>Error\<close> with a prefixed
  message. The value that \<^verbatim>\<open>JSON.parse\<close> returns is returned as it is.
\<close>

definition loadData :: "runtime \<Rightarrow> (js_error + jsval) \<times> event list" where
  "loadData rt =
     (let filePath = path_resolve rt (DATA_FILE_PATH rt) in
      case fs_readFile rt filePath of
        Inl m \<Rightarrow>
          (Inl (Error (''Failed to load data file: '' @ m)),
           [ReadFile filePath, LoggerError (''Failed to load data file: '' @ m)])
      | Inr fileContent \<Rightarrow>
          (case JSON_parse rt fileContent of
             Inl m \<Rightarrow>
               (Inl (Error (''Failed to load data file: '' @ m)),
                [ReadFile filePath, LoggerError (''Failed to load data file: '' @ m)])
           | Inr v \<Rightarrow> (Inr v, [ReadFile filePath])))"

section \<open>The request handlers\<close>

text \<open>
  A handler ends in \<^verbatim>\<open>res.status(c).json(b)\<close> or in \<^verbatim>\<open>next(error)\<close>.
\<close>

datatype outcome = Respond int jsval | Next js_error

text \<open>
  \<^verbatim>\<open>item.guid\<close>: reading a property of \<^verbatim>\<open>null\<close> or \<^verbatim>\<open>undefined\<close> throws a
  \<^verbatim>\<open>TypeError\<close> (with the message of current versions of V8; its words differ
  between versions, and no property below depends on them); an object yields its own
  property or \<^verbatim>\<open>undefined\<close>; no other value parsed from JSON has a property of
  that name.
\<close>

definition member_guid :: "jsval \<Rightarrow> js_error + jsval" where
  "member_guid item =
     (case item of
        JNull \<Rightarrow> Inl (TypeError ''Cannot read properties of null (reading 'guid')'')
      | JUndefined \<Rightarrow> Inl (TypeError ''Cannot read properties of undefined (reading 'guid')'')
      | JObj fs \<Rightarrow> Inr (case map_of fs ''guid'' of None \<Rightarrow> JUndefined | Some v \<Rightarrow> v)
      | _ \<Rightarrow> Inr JUndefined)"

text \<open>\<^verbatim>\<open>v === s\<close> for a string \<^verbatim>\<open>s\<close>: no conversion, the same characters.\<close>

definition strict_equals_string :: "jsval \<Rightarrow> string \<Rightarrow> bool" where
  "strict_equals_string v s \<longleftrightarrow> v = JStr s"

text \<open>
  \<^verbatim>\<open>Array.prototype.find\<close>: the first element on which the callback returns true, or
  \<^verbatim>\<open>undefined\<close>; what the callback throws leaves the scan.
\<close>

fun array_find :: "(jsval \<Rightarrow> js_error + bool) \<Rightarrow> jsval list \<Rightarrow> js_error + jsval" where
  "array_find p [] = Inr JUndefined"
| "array_find p (x # xs) =
     (case p x of Inl e \<Rightarrow> Inl e | Inr b \<Rightarrow> if b then Inr x else array_find p xs)"

text \<open>
  \<^verbatim>\<open>data.find(callback)\<close>: only an array has the method; on any other value parsed
  from JSON the call throws a \<^verbatim>\<open>TypeError\<close>.
\<close>

definition data_find :: "jsval \<Rightarrow> (jsval \<Rightarrow> js_error + bool) \<Rightarrow> js_error + jsval" where
  "data_find data p =
     (case data of
        JArr items \<Rightarrow> array_find p items
      | JNull \<Rightarrow> Inl (TypeError ''Cannot read properties of null (reading 'find')'')
      | JUndefined \<Rightarrow> Inl (TypeError ''Cannot read properties of undefined (reading 'find')'')
      | _ \<Rightarrow> Inl (TypeError ''data.find is not a function''))"

text \<open>The callback of the lookup, \<^verbatim>\<open>(item) => item.guid === guid\<close>.\<close>

definition item_guid_equals :: "string \<Rightarrow> jsval \<Rightarrow> js_error + bool" where
  "item_guid_equals guid item =
     (case member_guid item of
        Inl e \<Rightarrow> Inl e
      | Inr v \<Rightarrow> Inr (strict_equals_string v guid))"

definition getAllData :: "runtime \<Rightarrow> outcome \<times> event list" where
  "getAllData rt =
     (case loadData rt of
        (Inl error, evs) \<Rightarrow> (Next error, evs)
      | (Inr data, evs) \<Rightarrow> (Respond HTTP_STATUS_OK data, evs))"

definition getItemByGuid :: "runtime \<Rightarrow> string \<Rightarrow> outcome \<times> event list" where
  "getItemByGuid rt guid =
     (if \<not> isValidGuid (JStr guid) then
        (Next (ValidationError (''Invalid GUID format: '' @ guid)), [])
      else
        case loadData rt of
          (Inl error, evs) \<Rightarrow> (Next error, evs)
        | (Inr data, evs) \<Rightarrow>
            (case data_find data (item_guid_equals guid) of
               Inl error \<Rightarrow> (Next error, evs)
             | Inr item \<Rightarrow>
                 if \<not> truthy item then
                   (Next (NotFoundError (''Item not found: '' @ guid)), evs)
                 else (Respond HTTP_STATUS_OK item, evs)))"

definition health :: "clock \<Rightarrow> outcome \<times> event list" where
  "health clk =
     (Respond HTTP_STATUS_OK
        (JObj [(''status'', JStr ''ok''), (''timestamp'', JStr (Date_toISOString clk))]), [])"

section \<open>The error responder and the handler of unmatched routes\<close>

definition envelope :: "string \<Rightarrow> int \<Rightarrow> string \<Rightarrow> jsval" where
  "envelope msg code rid =
     JObj [(''error'',
            JObj [(''message'', JStr msg), (''statusCode'', JNum (of_int code)),
                  (''requestId'', JStr rid)])]"

text \<open>
  The error-handling middleware. \<^verbatim>\<open>a || b\<close> is \<^verbatim>\<open>b\<close> when \<^verbatim>\<open>a\<close> is missing,
  zero or the empty string. The event of the log holds the message; the stack that goes
  with it at the level \<^verbatim>\<open>error\<close> is left out.
\<close>

definition errorHandler :: "js_error \<Rightarrow> string \<Rightarrow> (int \<times> jsval) \<times> event list" where
  "errorHandler err rid =
     (let code = (case statusCode err of
                    None \<Rightarrow> HTTP_STATUS_INTERNAL_SERVER_ERROR
                  | Some c \<Rightarrow> if c = 0 then HTTP_STATUS_INTERNAL_SERVER_ERROR else c);
          msg = (if message err = [] then ''Internal server error'' else message err)
      in ((code, envelope msg code rid),
          [if code \<ge> 500 then LoggerError (''Error ['' @ rid @ '']: '' @ msg)
           else LoggerWarn (''Error ['' @ rid @ '']: '' @ msg)]))"

text \<open>
  A request: its method in capitals and its target as the client sent it
  (\<^verbatim>\<open>req.method\<close> and \<^verbatim>\<open>req.url\<close>).
\<close>

record request =
  req_method :: string
  req_url :: string

definition notFoundHandler :: "request \<Rightarrow> string \<Rightarrow> outcome \<times> event list" where
  "notFoundHandler req rid =
     (Respond HTTP_STATUS_NOT_FOUND
        (envelope (''Route not found: '' @ req_method req @ '' '' @ req_url req)
           HTTP_STATUS_NOT_FOUND rid), [])"

section \<open>Routing\<close>

text \<open>
  The routes are declared with \<^verbatim>\<open>app.get\<close> on an application with Express's default
  settings: the path of a route is compared without regard to letter case
  (\<^verbatim>\<open>case sensitive routing\<close> is off), one trailing slash is optional
  (\<^verbatim>\<open>strict routing\<close> is off), and a route declared for GET also serves HEAD.

  Express matches the routes against the path that \<^verbatim>\<open>parseurl\<close> finds in the target.
  For a target that starts with a slash and has no white space and no number sign after
  it, that is the target up to the first question mark; for any other target (one with a
  fragment, or in absolute form) it is the \<^verbatim>\<open>pathname\<close> of \<^verbatim>\<open>url.parse\<close>.
  The white space that \<^verbatim>\<open>parseurl\<close> looks for is the tab, the line feed, the form
  feed, the carriage return, the space and the no-break space.
\<close>

definition plain_target :: "string \<Rightarrow> bool" where
  "plain_target u =
     (case u of
        [] \<Rightarrow> False
      | c # cs \<Rightarrow>
          c = CHR ''/'' \<and>
          list_all
            (\<lambda>d. d \<notin> set [CHR 0x09, CHR 0x0A, CHR 0x0C, CHR 0x0D, CHR '' '', CHR ''#'', CHR 0xA0])
            cs)"

definition pathname :: "runtime \<Rightarrow> string \<Rightarrow> string" where
  "pathname rt u =
     (if plain_target u then takeWhile (\<lambda>c. c \<noteq> CHR ''?'') u else url_parse_pathname rt u)"

definition handles_method :: "string \<Rightarrow> bool" where
  "handles_method m \<longleftrightarrow> m = ''GET'' \<or> m = ''HEAD''"

definition match_literal :: "string \<Rightarrow> string \<Rightarrow> bool" where
  "match_literal pat path \<longleftrightarrow>
     map toUpperCase path = map toUpperCase pat \<or>
     map toUpperCase path = map toUpperCase (pat @ ''/'')"

definition match_root :: "string \<Rightarrow> bool" where
  "match_root path \<longleftrightarrow> path = [] \<or> path = ''/''"

text \<open>
  The route \<^verbatim>\<open>/:guid\<close>: a slash, one non-empty segment without a slash (the
  parameter, not yet decoded), and the optional trailing slash.
\<close>

definition match_param :: "string \<Rightarrow> string option" where
  "match_param path =
     (case path of
        [] \<Rightarrow> None
      | c # rest \<Rightarrow>
          if c \<noteq> CHR ''/'' then None
          else
            let seg = (if rest \<noteq> [] \<and> last rest = CHR ''/'' then butlast rest else rest)
            in if seg \<noteq> [] \<and> CHR ''/'' \<notin> set seg then Some seg else None)"

text \<open>
  Express decodes the parameter of a matching path with \<^verbatim>\<open>decodeURIComponent\<close>; when
  that throws, the error gets a message and the status code 400 and goes to the error
  handler, before the method of the request is looked at.
\<close>

definition decode_param :: "runtime \<Rightarrow> string \<Rightarrow> js_error + string" where
  "decode_param rt val =
     (case decodeURIComponent rt val of
        Some s \<Rightarrow> Inr s
      | None \<Rightarrow>
          Inl \<lparr>name = ''URIError'',
               message = ''Failed to decode param '' @ [CHR 0x27] @ val @ [CHR 0x27],
               statusCode = Some HTTP_STATUS_BAD_REQUEST\<rparr>)"

datatype route =
    RouteHealth
  | RouteGetAll
  | RouteGetItem string
  | RouteParamError js_error
  | RouteNone

text \<open>The routes in the order of their declaration: \<^verbatim>\<open>/health\<close>, \<^verbatim>\<open>/\<close>, \<^verbatim>\<open>/:guid\<close>.\<close>

definition dispatch :: "runtime \<Rightarrow> request \<Rightarrow> route" where
  "dispatch rt req =
     (let path = pathname rt (req_url req); get = handles_method (req_method req) in
      if get \<and> match_literal ''/health'' path then RouteHealth
      else if get \<and> match_root path then RouteGetAll
      else
        case match_param path of
          None \<Rightarrow> RouteNone
        | Some seg \<Rightarrow>
            (case decode_param rt seg of
               Inl e \<Rightarrow> RouteParamError e
             | Inr guid \<Rightarrow> if get then RouteGetItem guid else RouteNone))"

section \<open>The application\<close>

text \<open>The first middleware gives the request its identifier.\<close>

definition request_id :: "clock \<Rightarrow> string" where
  "request_id clk =
     show_nat (Date_now clk) @ ''-'' @ take 9 (drop 2 (Math_random_toString36 clk))"

text \<open>
  What the routes do with a request: a response, or an error passed to \<^verbatim>\<open>next\<close>. A
  request that no route takes falls through to the last middleware.
\<close>

definition routes :: "runtime \<Rightarrow> clock \<Rightarrow> request \<Rightarrow> outcome \<times> event list" where
  "routes rt clk req =
     (case dispatch rt req of
        RouteHealth \<Rightarrow> health clk
      | RouteGetAll \<Rightarrow> getAllData rt
      | RouteGetItem guid \<Rightarrow> getItemByGuid rt guid
      | RouteParamError e \<Rightarrow> (Next e, [])
      | RouteNone \<Rightarrow> notFoundHandler req (request_id clk))"

record response =
  res_statusCode :: int
  res_headers :: "(string \<times> string) list"
  res_body :: jsval

text \<open>
  The whole chain: the identifier and its header, the routes, the error handler for what
  they pass to \<^verbatim>\<open>next\<close>, and the line that the logging middleware writes when the
  response is finished. The response holds what the program hands to Express: the status,
  the header it sets and the value given to \<^verbatim>\<open>res.json\<close>.
\<close>

definition finish ::
  "string \<Rightarrow> request \<Rightarrow> int \<Rightarrow> jsval \<Rightarrow> event list \<Rightarrow> response \<times> event list" where
  "finish rid req code body evs =
     (\<lparr>res_statusCode = code, res_headers = [(''X-Request-ID'', rid)], res_body = body\<rparr>,
      evs @ [LoggerInfo (show_int code @ '' '' @ req_method req @ '' '' @ req_url req @
                          '' ['' @ rid @ '']'')])"

definition app :: "runtime \<Rightarrow> clock \<Rightarrow> request \<Rightarrow> response \<times> event list" where
  "app rt clk req =
     (let rid = request_id clk in
      case routes rt clk req of
        (Respond code body, evs) \<Rightarrow> finish rid req code body evs
      | (Next err, evs) \<Rightarrow>
          (case errorHandler err rid of
             ((code, body), evs') \<Rightarrow> finish rid req code body (evs @ evs')))"

text \<open>The response with the header that every response carries.\<close>

definition response_of :: "clock \<Rightarrow> int \<Rightarrow> jsval \<Rightarrow> response" where
  "response_of clk code body =
     \<lparr>res_statusCode = code, res_headers = [(''X-Request-ID'', request_id clk)],
      res_body = body\<rparr>"

section \<open>Examples\<close>

text \<open>
  A process started in \<^verbatim>\<open>/app\<close> without \<^verbatim>\<open>DATA_FILE_PATH\<close>, where the file
  \<^verbatim>\<open>/app/data.json\<close> holds the text \<^verbatim>\<open>content\<close> and \<^verbatim>\<open>JSON.parse\<close> of that text
  gives \<^verbatim>\<open>parsed\<close>. The decoder of the example leaves a string without a percent sign
  as it is and rejects any other; the examples use it on strings without a percent sign
  and on the malformed escape \<^verbatim>\<open>%zz\<close> only. Its \<^verbatim>\<open>url.parse\<close> cuts the target
  at the first question mark or number sign; the examples use it on the target
  \<^verbatim>\<open>/health#top\<close> only.
\<close>

definition example_runtime :: "string \<Rightarrow> string + jsval \<Rightarrow> runtime" where
  "example_runtime content parsed =
     \<lparr>env_DATA_FILE_PATH = None,
      path_resolve = (\<lambda>p. ''/app/'' @ p),
      fs_readFile = (\<lambda>p. if p = ''/app/data.json'' then Inr content
                          else Inl (''ENOENT: no such file or directory, open '' @
                                    [CHR 0x27] @ p @ [CHR 0x27])),
      JSON_parse = (\<lambda>s. if s = content then parsed else Inl ''Unexpected end of JSON input''),
      decodeURIComponent = (\<lambda>s. if CHR ''%'' \<in> set s then None else Some s),
      url_parse_pathname = takeWhile (\<lambda>c. c \<noteq> CHR ''?'' \<and> c \<noteq> CHR ''#'')\<rparr>"

definition example_clock :: clock where
  "example_clock =
     \<lparr>Date_now = 1700000000000, Math_random_toString36 = ''0.4fzyo82mvyr'',
      Date_toISOString = ''2023-11-14T22:13:20.000Z''\<rparr>"

text \<open>
  A dataset for the examples: a record without a \<^verbatim>\<open>guid\<close>, the record of the
  documentation, and a second record with the same \<^verbatim>\<open>guid\<close>.
\<close>

definition example_records :: "jsval list" where
  "example_records =
     [JObj [(''school'', JStr ''Drake University'')],
      JObj [(''guid'', JStr ''05024756-765e-41a9-89d7-1407436d9a58''),
            (''school'', JStr ''Iowa State University'')],
      JObj [(''guid'', JStr ''05024756-765e-41a9-89d7-1407436d9a58''),
            (''school'', JStr ''University of Iowa'')]]"

definition example_content :: string where
  \<open>example_content =
     ''[{"school":"Drake University"},'' @
     ''{"guid":"05024756-765e-41a9-89d7-1407436d9a58","school":"Iowa State University"},'' @
     ''{"guid":"05024756-765e-41a9-89d7-1407436d9a58","school":"University of Iowa"}]''\<close>

text \<open>
  A dataset whose elements have other shapes: a number, a string, an array, a boolean, an
  object whose \<^verbatim>\<open>guid\<close> is a number, an object without one, and the record of the
  documentation.
\<close>

definition example_mixed :: "jsval list" where
  "example_mixed =
     [JNum 5, JStr ''guid'', JArr [], JBool True, JObj [(''guid'', JNum 7)],
      JObj [(''school'', JStr ''Drake University'')],
      JObj [(''guid'', JStr ''05024756-765e-41a9-89d7-1407436d9a58''),
            (''school'', JStr ''Iowa State University'')]]"

definition example_mixed_content :: string where
  \<open>example_mixed_content =
     ''[5,"guid",[],true,{"guid":7},{"school":"Drake University"},'' @
     ''{"guid":"05024756-765e-41a9-89d7-1407436d9a58","school":"Iowa State University"}]''\<close>

text \<open>Another state of the file system, with the same dataset file.\<close>

definition example_other_files :: "string \<Rightarrow> string + string" where
  "example_other_files p =
     (if p = ''/app/data.json'' then Inr example_content
      else if p = ''/app/notes.txt'' then Inr ''later''
      else Inl (''ENOENT: no such file or directory, open '' @ [CHR 0x27] @ p @ [CHR 0x27]))"

definition example_clock_later :: clock where
  "example_clock_later =
     \<lparr>Date_now = 1700000000250, Math_random_toString36 = ''0.k2j8x0q9w4e'',
      Date_toISOString = ''2023-11-14T22:13:20.250Z''\<rparr>"

section \<open>The words of the specification\<close>

text \<open>
  A record whose \<^verbatim>\<open>guid\<close> field equals the identifier: an object with a property
  \<^verbatim>\<open>guid\<close> that is a string of the same characters.
\<close>

definition has_guid :: "jsval \<Rightarrow> string \<Rightarrow> bool" where
  "has_guid item guid =
     (case item of JObj fs \<Rightarrow> map_of fs ''guid'' = Some (JStr guid) | _ \<Rightarrow> False)"

definition nullish :: "jsval \<Rightarrow> bool" where
  "nullish v \<longleftrightarrow> v = JNull \<or> v = JUndefined"

section \<open>Properties of the identifier validator\<close>

lemma of_char_toUpperCase:
  "(of_char (toUpperCase c) :: nat) =
     (if 97 \<le> (of_char c :: nat) \<and> (of_char c :: nat) \<le> 122 then of_char c - 32 else of_char c)"
  by (auto simp add: toUpperCase_def in_range_def)

lemma of_char_toLowerCase:
  "(of_char (toLowerCase c) :: nat) =
     (if 65 \<le> (of_char c :: nat) \<and> (of_char c :: nat) \<le> 90 then of_char c + 32 else of_char c)"
  by (simp add: toLowerCase_def in_range_def)

lemma hex_class_matches: "atom_matches True hex_class c \<longleftrightarrow> hex_digit c"
  unfolding hex_class_def hex_digit_def
  by (auto simp add: in_range_def of_char_toUpperCase of_char_toLowerCase)

lemma hyphen_matches: "atom_matches True (Lit (CHR ''-'')) c \<longleftrightarrow> c = CHR ''-''"
proof -
  have "toUpperCase c = toUpperCase (CHR ''-'') \<longleftrightarrow>
        (of_char (toUpperCase c) :: nat) = of_char (toUpperCase (CHR ''-''))"
    by (simp only: of_char_eq_iff)
  also have "\<dots> \<longleftrightarrow> (of_char c :: nat) = of_char (CHR ''-'')"
    by (auto simp add: of_char_toUpperCase)
  also have "\<dots> \<longleftrightarrow> c = CHR ''-''"
    by (simp only: of_char_eq_iff)
  finally show ?thesis by simp
qed

lemma pieces_match_Cons:
  "pieces_match ic ((a, n) # ps) s \<longleftrightarrow>
     (\<exists>g r. s = g @ r \<and> length g = n \<and> list_all (atom_matches ic a) g \<and> pieces_match ic ps r)"
proof
  assume "pieces_match ic ((a, n) # ps) s"
  then have "s = take n s @ drop n s" "length (take n s) = n"
    "list_all (atom_matches ic a) (take n s)" "pieces_match ic ps (drop n s)"
    by simp_all
  then show "\<exists>g r. s = g @ r \<and> length g = n \<and> list_all (atom_matches ic a) g \<and>
    pieces_match ic ps r"
    by blast
next
  assume "\<exists>g r. s = g @ r \<and> length g = n \<and> list_all (atom_matches ic a) g \<and>
    pieces_match ic ps r"
  then show "pieces_match ic ((a, n) # ps) s"
    by auto
qed

lemma hex_step:
  "pieces_match True ((hex_class, n) # ps) s \<longleftrightarrow>
     (\<exists>g r. s = g @ r \<and> length g = n \<and> list_all hex_digit g \<and> pieces_match True ps r)"
  unfolding pieces_match_Cons by (simp add: hex_class_matches[abs_def] del: atom_matches.simps)

lemma hyphen_step:
  "pieces_match True ((Lit (CHR ''-''), 1) # ps) s \<longleftrightarrow>
     (\<exists>r. s = CHR ''-'' # r \<and> pieces_match True ps r)"
proof -
  have "length g = 1 \<and> list_all (atom_matches True (Lit (CHR ''-''))) g \<longleftrightarrow> g = ''-''" for g
    by (cases g) (auto simp add: hyphen_matches simp del: atom_matches.simps)
  then have "pieces_match True ((Lit (CHR ''-''), 1) # ps) s \<longleftrightarrow>
     (\<exists>g r. s = g @ r \<and> g = ''-'' \<and> pieces_match True ps r)"
    unfolding pieces_match_Cons by (metis (no_types, lifting))
  then show ?thesis by simp
qed

lemma GUID_REGEX_layout: "regexp_test GUID_REGEX s \<longleftrightarrow> guid_layout s"
proof
  assume "regexp_test GUID_REGEX s"
  then obtain g1 g2 g3 g4 g5 where
    "s = g1 @ CHR ''-'' # g2 @ CHR ''-'' # g3 @ CHR ''-'' # g4 @ CHR ''-'' # g5"
    "length g1 = 8" "length g2 = 4" "length g3 = 4" "length g4 = 4" "length g5 = 12"
    "list_all hex_digit g1" "list_all hex_digit g2" "list_all hex_digit g3"
    "list_all hex_digit g4" "list_all hex_digit g5"
    unfolding regexp_test_def GUID_REGEX_def
    apply (simp only: regexp.simps hex_step hyphen_step pieces_match.simps(1))
    apply (elim exE conjE)
    apply simp
    done
  then show "guid_layout s"
    unfolding guid_layout_def
    by (intro exI[of _ g1] exI[of _ g2] exI[of _ g3] exI[of _ g4] exI[of _ g5]) simp
next
  assume "guid_layout s"
  then obtain g1 g2 g3 g4 g5 where
    "s = g1 @ CHR ''-'' # g2 @ CHR ''-'' # g3 @ CHR ''-'' # g4 @ CHR ''-'' # g5"
    "length g1 = 8" "length g2 = 4" "length g3 = 4" "length g4 = 4" "length g5 = 12"
    "list_all hex_digit g1" "list_all hex_digit g2" "list_all hex_digit g3"
    "list_all hex_digit g4" "list_all hex_digit g5"
    unfolding guid_layout_def by auto
  then show "regexp_test GUID_REGEX s"
    unfolding regexp_test_def GUID_REGEX_def
    by (simp add: hex_class_matches[abs_def] hyphen_matches del: atom_matches.simps)
qed

lemma guid_layout_length: "guid_layout s \<Longrightarrow> length s = 36"
  unfolding guid_layout_def by auto

text \<open>
  Claim C3. The validator accepts a value if and only if it is a string of exactly 36
  characters in the layout of five groups of 8, 4, 4, 4 and 12 hexadecimal digits in
  either case, separated by hyphens; every other value, a string or not, is rejected.
\<close>

theorem isValidGuid_iff_layout:
  "isValidGuid v \<longleftrightarrow> (\<exists>s. v = JStr s \<and> length s = 36 \<and> guid_layout s)"
proof (cases v)
  case (JStr s)
  then show ?thesis
    using guid_layout_length[of s] by (auto simp add: isValidGuid_def GUID_REGEX_layout)
qed (simp_all add: isValidGuid_def)

theorem isValidGuid_iff_layout_witness:
  "isValidGuid (JStr ''05024756-765e-41a9-89d7-1407436d9a58'') \<and>
   guid_layout ''05024756-765e-41a9-89d7-1407436d9a58'' \<and>
   isValidGuid (JStr ''05024756-765E-41A9-89D7-1407436D9A58'') \<and>
   guid_layout ''05024756-765E-41A9-89D7-1407436D9A58'' \<and>
   \<not> isValidGuid (JStr ''05024756-765e-41a9-89d7-1407436d9a5g'') \<and>
   \<not> guid_layout ''05024756-765e-41a9-89d7-1407436d9a5g'' \<and>
   \<not> isValidGuid (JStr ''05024756765e41a989d71407436d9a58'') \<and>
   \<not> guid_layout ''05024756765e41a989d71407436d9a58'' \<and>
   \<not> isValidGuid (JStr '''') \<and> \<not> guid_layout '''' \<and>
   \<not> isValidGuid (JNum 5) \<and> \<not> isValidGuid JUndefined"
proof -
  have a: "isValidGuid (JStr ''05024756-765e-41a9-89d7-1407436d9a58'')"
    by (simp add: isValidGuid_def regexp_test_def GUID_REGEX_def hex_class_def in_range_def
        toUpperCase_def toLowerCase_def)
  have b: "isValidGuid (JStr ''05024756-765E-41A9-89D7-1407436D9A58'')"
    by (simp add: isValidGuid_def regexp_test_def GUID_REGEX_def hex_class_def in_range_def
        toUpperCase_def toLowerCase_def)
  have c: "\<not> isValidGuid (JStr ''05024756-765e-41a9-89d7-1407436d9a5g'')"
    by (simp add: isValidGuid_def regexp_test_def GUID_REGEX_def hex_class_def in_range_def
        toUpperCase_def toLowerCase_def)
  have d: "\<not> isValidGuid (JStr ''05024756765e41a989d71407436d9a58'')"
    by (simp add: isValidGuid_def regexp_test_def GUID_REGEX_def hex_class_def in_range_def
        toUpperCase_def toLowerCase_def)
  have e: "\<not> isValidGuid (JStr '''')"
    by (simp add: isValidGuid_def regexp_test_def GUID_REGEX_def)
  show ?thesis
    using a b c d e
      isValidGuid_iff_layout[of "JStr ''05024756-765e-41a9-89d7-1407436d9a58''"]
      isValidGuid_iff_layout[of "JStr ''05024756-765E-41A9-89D7-1407436D9A58''"]
      isValidGuid_iff_layout[of "JStr ''05024756-765e-41a9-89d7-1407436d9a5g''"]
      isValidGuid_iff_layout[of "JStr ''05024756765e41a989d71407436d9a58''"]
      isValidGuid_iff_layout[of "JStr ''''"]
      isValidGuid_iff_layout[of "JNum 5"]
      isValidGuid_iff_layout[of JUndefined]
      guid_layout_length[of "''05024756765e41a989d71407436d9a58''"]
      guid_layout_length[of "''''"]
    by auto
qed

section \<open>Properties of the data loader\<close>

lemma loadData_cases:
  "fst (loadData rt) =
     (case fs_readFile rt (path_resolve rt (DATA_FILE_PATH rt)) of
        Inl m \<Rightarrow> Inl (Error (''Failed to load data file: '' @ m))
      | Inr fileContent \<Rightarrow>
          (case JSON_parse rt fileContent of
             Inl m \<Rightarrow> Inl (Error (''Failed to load data file: '' @ m))
           | Inr v \<Rightarrow> Inr v))"
  by (simp add: loadData_def Let_def split: sum.splits)

lemma loadData_error:
  "fst (loadData rt) = Inl e \<Longrightarrow> \<exists>m. e = Error (''Failed to load data file: '' @ m)"
  by (auto simp add: loadData_cases split: sum.splits)

text \<open>
  Claim C1. The loader is documented to resolve to the data array and to fail when the
  file cannot be read or parsed; the claim asks it to fail also when the text of the
  file parses to a value that is not an array. The code does not look at the parsed
  value. On a dataset file with the text \<^verbatim>\<open>{}\<close>, which parses to an object, the
  loader returns that object with no error and nothing logged, and the list endpoint
  answers the request \<^verbatim>\<open>GET /\<close> with status 200 and the object as the body.
\<close>

theorem loadData_resolves_to_non_array:
  "fs_readFile (example_runtime ''{}'' (Inr (JObj []))) ''/app/data.json'' = Inr ''{}'' \<and>
   JSON_parse (example_runtime ''{}'' (Inr (JObj []))) ''{}'' = Inr (JObj []) \<and>
   loadData (example_runtime ''{}'' (Inr (JObj []))) =
     (Inr (JObj []), [ReadFile ''/app/data.json'']) \<and>
   fst (app (example_runtime ''{}'' (Inr (JObj []))) example_clock
     \<lparr>req_method = ''GET'', req_url = ''/''\<rparr>) =
     \<lparr>res_statusCode = 200, res_headers = [(''X-Request-ID'', request_id example_clock)],
      res_body = JObj []\<rparr>"
proof -
  let ?rt = "example_runtime ''{}'' (Inr (JObj []))"
  have l: "loadData ?rt = (Inr (JObj []), [ReadFile ''/app/data.json''])"
    by (simp add: loadData_def example_runtime_def DATA_FILE_PATH_def DEFAULT_DATA_FILE_def)
  have d: "dispatch ?rt \<lparr>req_method = ''GET'', req_url = ''/''\<rparr> = RouteGetAll"
    by (simp add: dispatch_def pathname_def plain_target_def handles_method_def
        match_literal_def match_root_def)
  have "fst (app ?rt example_clock \<lparr>req_method = ''GET'', req_url = ''/''\<rparr>) =
     \<lparr>res_statusCode = 200, res_headers = [(''X-Request-ID'', request_id example_clock)],
      res_body = JObj []\<rparr>"
    by (simp add: app_def routes_def d getAllData_def l finish_def HTTP_STATUS_OK_def Let_def)
  with l show ?thesis
    by (simp add: example_runtime_def)
qed

section \<open>Properties of the lookup\<close>

lemma item_guid_equals_value:
  "\<not> nullish x \<Longrightarrow> item_guid_equals guid x = Inr (has_guid x guid)"
  by (cases x)
    (auto simp add: item_guid_equals_def member_guid_def strict_equals_string_def has_guid_def
      nullish_def split: option.splits)

lemma item_guid_equals_null:
  "item_guid_equals guid JNull =
     Inl (TypeError ''Cannot read properties of null (reading 'guid')'')"
  by (simp add: item_guid_equals_def member_guid_def)

lemma item_guid_equals_error:
  "item_guid_equals guid x = Inl e \<Longrightarrow>
     nullish x \<and> statusCode e = None \<and> message e \<noteq> []"
  by (cases x)
    (auto simp add: item_guid_equals_def member_guid_def nullish_def TypeError_def)

lemma has_guid_not_nullish: "has_guid x guid \<Longrightarrow> \<not> nullish x"
  by (cases x) (simp_all add: has_guid_def nullish_def)

lemma has_guid_truthy: "has_guid x guid \<Longrightarrow> truthy x"
  by (cases x) (simp_all add: has_guid_def)

lemma array_find_skip:
  "\<forall>x\<in>set pre. \<not> nullish x \<and> \<not> has_guid x guid \<Longrightarrow>
     array_find (item_guid_equals guid) (pre @ rest) = array_find (item_guid_equals guid) rest"
  by (induction pre) (simp_all add: item_guid_equals_value)

lemma array_find_hit:
  "has_guid r guid \<Longrightarrow> array_find (item_guid_equals guid) (r # post) = Inr r"
  by (simp add: item_guid_equals_value has_guid_not_nullish)

lemma array_find_none:
  "\<forall>x\<in>set items. \<not> nullish x \<and> \<not> has_guid x guid \<Longrightarrow>
     array_find (item_guid_equals guid) items = Inr JUndefined"
  using array_find_skip[of items guid "[]"] by simp

lemma array_find_error:
  "array_find (item_guid_equals guid) items = Inl e \<Longrightarrow> statusCode e = None \<and> message e \<noteq> []"
proof (induction items)
  case Nil
  then show ?case by simp
next
  case (Cons x xs)
  then show ?case
    by (cases "item_guid_equals guid x") (auto dest: item_guid_equals_error split: if_splits)
qed

lemma filter_first_match:
  "(case filter (\<lambda>x. has_guid x guid) items of [] \<Rightarrow> a | r # rs \<Rightarrow> f r) =
   (case dropWhile (\<lambda>x. \<not> has_guid x guid) items of [] \<Rightarrow> a | r # rs \<Rightarrow> f r)"
  by (induction items) simp_all

lemma array_find_first_match:
  assumes "\<forall>x\<in>set (takeWhile (\<lambda>x. \<not> has_guid x guid) items). \<not> nullish x"
  shows "array_find (item_guid_equals guid) items =
     Inr (case filter (\<lambda>x. has_guid x guid) items of [] \<Rightarrow> JUndefined | r # rs \<Rightarrow> r)"
proof -
  let ?pre = "takeWhile (\<lambda>x. \<not> has_guid x guid) items"
  let ?rest = "dropWhile (\<lambda>x. \<not> has_guid x guid) items"
  have pre: "\<forall>x\<in>set ?pre. \<not> nullish x \<and> \<not> has_guid x guid"
    using assms by (auto dest: set_takeWhileD)
  have "array_find (item_guid_equals guid) items = array_find (item_guid_equals guid) ?rest"
    using array_find_skip[OF pre, of ?rest] by simp
  also have "\<dots> = Inr (case ?rest of [] \<Rightarrow> JUndefined | r # rs \<Rightarrow> r)"
  proof (cases ?rest)
    case Nil
    then show ?thesis by (simp only: array_find.simps list.simps)
  next
    case (Cons r rs)
    then have "has_guid r guid"
      using hd_dropWhile[of "\<lambda>x. \<not> has_guid x guid" items] by auto
    then show ?thesis
      unfolding Cons by (simp only: array_find_hit list.simps)
  qed
  finally show ?thesis
    by (simp add: filter_first_match)
qed

section \<open>Properties of the handlers and of the chain\<close>

lemma getItemByGuid_invalid:
  "\<not> isValidGuid (JStr guid) \<Longrightarrow>
     getItemByGuid rt guid = (Next (ValidationError (''Invalid GUID format: '' @ guid)), [])"
  by (simp add: getItemByGuid_def)

lemma getItemByGuid_load_error:
  "isValidGuid (JStr guid) \<Longrightarrow> fst (loadData rt) = Inl e \<Longrightarrow>
     fst (getItemByGuid rt guid) = Next e"
  by (cases "loadData rt") (simp add: getItemByGuid_def)

lemma getItemByGuid_array:
  "isValidGuid (JStr guid) \<Longrightarrow> fst (loadData rt) = Inr (JArr items) \<Longrightarrow>
     fst (getItemByGuid rt guid) =
       (case array_find (item_guid_equals guid) items of
          Inl e \<Rightarrow> Next e
        | Inr item \<Rightarrow>
            if truthy item then Respond HTTP_STATUS_OK item
            else Next (NotFoundError (''Item not found: '' @ guid)))"
  by (cases "loadData rt") (simp add: getItemByGuid_def data_find_def split: sum.splits)

lemma getAllData_cases:
  "fst (getAllData rt) =
     (case fst (loadData rt) of Inl e \<Rightarrow> Next e | Inr data \<Rightarrow> Respond HTTP_STATUS_OK data)"
  by (cases "loadData rt") (simp add: getAllData_def split: sum.splits)

lemma errorHandler_without_code:
  "statusCode err = None \<Longrightarrow> message err \<noteq> [] \<Longrightarrow>
     fst (errorHandler err rid) =
       (HTTP_STATUS_INTERNAL_SERVER_ERROR,
        envelope (message err) HTTP_STATUS_INTERNAL_SERVER_ERROR rid)"
  by (simp add: errorHandler_def Let_def)

lemma envelope_shape:
  "envelope msg code rid =
     JObj [(''error'',
            JObj [(''message'', JStr msg), (''statusCode'', JNum (of_int code)),
                  (''requestId'', JStr rid)])]"
  by (simp add: envelope_def)

lemma app_response:
  "fst (app rt clk req) =
     (case fst (routes rt clk req) of
        Respond code body \<Rightarrow> response_of clk code body
      | Next err \<Rightarrow>
          response_of clk (fst (fst (errorHandler err (request_id clk))))
            (snd (fst (errorHandler err (request_id clk)))))"
  by (cases "routes rt clk req")
    (auto simp add: app_def finish_def response_of_def Let_def split: outcome.splits prod.splits)

lemma routes_GetItem:
  "dispatch rt req = RouteGetItem guid \<Longrightarrow> routes rt clk req = getItemByGuid rt guid"
  by (simp add: routes_def)

lemma routes_GetAll: "dispatch rt req = RouteGetAll \<Longrightarrow> routes rt clk req = getAllData rt"
  by (simp add: routes_def)


section \<open>Facts about the examples\<close>

lemma example_guid_valid: "isValidGuid (JStr ''05024756-765e-41a9-89d7-1407436d9a58'')"
  by (simp add: isValidGuid_def regexp_test_def GUID_REGEX_def hex_class_def in_range_def
      toUpperCase_def toLowerCase_def)

lemma example_upper_guid_valid: "isValidGuid (JStr ''05024756-765E-41A9-89D7-1407436D9A58'')"
  by (simp add: isValidGuid_def regexp_test_def GUID_REGEX_def hex_class_def in_range_def
      toUpperCase_def toLowerCase_def)

lemma example_favicon_invalid: "\<not> isValidGuid (JStr ''favicon.ico'')"
  by (simp add: isValidGuid_def regexp_test_def GUID_REGEX_def)

lemma example_loadData:
  "loadData (example_runtime content (Inr v)) = (Inr v, [ReadFile ''/app/data.json''])"
  by (simp add: loadData_def example_runtime_def DATA_FILE_PATH_def DEFAULT_DATA_FILE_def)

lemma example_loadData_error:
  "loadData (example_runtime content (Inl m)) =
     (Inl (Error (''Failed to load data file: '' @ m)),
      [ReadFile ''/app/data.json'', LoggerError (''Failed to load data file: '' @ m)])"
  by (simp add: loadData_def example_runtime_def DATA_FILE_PATH_def DEFAULT_DATA_FILE_def)

lemma example_dispatch_guid:
  "dispatch (example_runtime content parsed)
     \<lparr>req_method = ''GET'', req_url = ''/05024756-765e-41a9-89d7-1407436d9a58''\<rparr> =
   RouteGetItem ''05024756-765e-41a9-89d7-1407436d9a58''"
  by (simp add: dispatch_def pathname_def plain_target_def handles_method_def
      match_literal_def match_root_def match_param_def decode_param_def
      example_runtime_def)

lemma example_dispatch_upper_guid:
  "dispatch (example_runtime content parsed)
     \<lparr>req_method = ''GET'', req_url = ''/05024756-765E-41A9-89D7-1407436D9A58''\<rparr> =
   RouteGetItem ''05024756-765E-41A9-89D7-1407436D9A58''"
  by (simp add: dispatch_def pathname_def plain_target_def handles_method_def
      match_literal_def match_root_def match_param_def decode_param_def
      example_runtime_def)

lemma example_dispatch_favicon:
  "dispatch (example_runtime content parsed)
     \<lparr>req_method = ''GET'', req_url = ''/favicon.ico''\<rparr> = RouteGetItem ''favicon.ico''"
  by (simp add: dispatch_def pathname_def plain_target_def handles_method_def
      match_literal_def match_root_def match_param_def decode_param_def
      example_runtime_def)

section \<open>The get-by-identifier handler\<close>

text \<open>
  Claim C2. For a well-formed identifier and a dataset, the handler scans the dataset in
  order and answers with status 200 and the first record whose \<^verbatim>\<open>guid\<close> is exactly
  the identifier; when no record has that \<^verbatim>\<open>guid\<close> it fails with the not-found
  error, message \<^verbatim>\<open>Item not found: \<close> and the identifier, status 404. The comparison
  is equality of strings, so a \<^verbatim>\<open>guid\<close> that differs from the identifier, be it in
  letter case only, is no match. The elements that the scan passes are not null (the
  records of a dataset are objects).
\<close>

theorem getItemByGuid_first_match:
  assumes "isValidGuid (JStr guid)"
    and "dispatch rt req = RouteGetItem guid"
    and "fst (loadData rt) = Inr (JArr items)"
  shows
    "(\<forall>pre r post.
        items = pre @ r # post \<and> (\<forall>x\<in>set pre. \<not> nullish x \<and> \<not> has_guid x guid) \<and>
        has_guid r guid \<longrightarrow>
        fst (getItemByGuid rt guid) = Respond 200 r \<and>
        fst (app rt clk req) = response_of clk 200 r) \<and>
     ((\<forall>x\<in>set items. \<not> nullish x \<and> \<not> has_guid x guid) \<longrightarrow>
        fst (getItemByGuid rt guid) = Next (NotFoundError (''Item not found: '' @ guid)) \<and>
        statusCode (NotFoundError (''Item not found: '' @ guid)) = Some 404 \<and>
        fst (app rt clk req) =
          response_of clk 404 (envelope (''Item not found: '' @ guid) 404 (request_id clk))) \<and>
     (\<forall>r s. has_guid r s \<and> s \<noteq> guid \<longrightarrow> \<not> has_guid r guid)"
proof (intro conjI allI impI)
  fix pre r post
  assume h: "items = pre @ r # post \<and> (\<forall>x\<in>set pre. \<not> nullish x \<and> \<not> has_guid x guid) \<and>
    has_guid r guid"
  then have "array_find (item_guid_equals guid) items = Inr r"
    by (simp add: array_find_skip array_find_hit del: array_find.simps)
  with h show found: "fst (getItemByGuid rt guid) = Respond 200 r"
    using getItemByGuid_array[OF assms(1,3)] has_guid_truthy[of r guid]
    by (simp add: HTTP_STATUS_OK_def)
  show "fst (app rt clk req) = response_of clk 200 r"
    using found by (simp add: app_response routes_GetItem[OF assms(2)])
next
  assume h: "\<forall>x\<in>set items. \<not> nullish x \<and> \<not> has_guid x guid"
  then have "array_find (item_guid_equals guid) items = Inr JUndefined"
    by (rule array_find_none)
  then show missing:
    "fst (getItemByGuid rt guid) = Next (NotFoundError (''Item not found: '' @ guid))"
    using getItemByGuid_array[OF assms(1,3)] by simp
  show "statusCode (NotFoundError (''Item not found: '' @ guid)) = Some 404"
    by (simp add: NotFoundError_def HTTP_STATUS_NOT_FOUND_def)
  show "fst (app rt clk req) =
      response_of clk 404 (envelope (''Item not found: '' @ guid) 404 (request_id clk))"
    using missing
    by (simp add: app_response routes_GetItem[OF assms(2)] errorHandler_def Let_def
        NotFoundError_def HTTP_STATUS_NOT_FOUND_def)
next
  fix r s
  assume "has_guid r s \<and> s \<noteq> guid"
  then show "\<not> has_guid r guid"
    by (cases r) (auto simp add: has_guid_def)
qed

theorem getItemByGuid_first_match_witness:
  "isValidGuid (JStr ''05024756-765e-41a9-89d7-1407436d9a58'') \<and>
   dispatch (example_runtime example_content (Inr (JArr example_records)))
     \<lparr>req_method = ''GET'', req_url = ''/05024756-765e-41a9-89d7-1407436d9a58''\<rparr> =
     RouteGetItem ''05024756-765e-41a9-89d7-1407436d9a58'' \<and>
   fst (loadData (example_runtime example_content (Inr (JArr example_records)))) =
     Inr (JArr example_records) \<and>
   fst (app (example_runtime example_content (Inr (JArr example_records))) example_clock
     \<lparr>req_method = ''GET'', req_url = ''/05024756-765e-41a9-89d7-1407436d9a58''\<rparr>) =
     response_of example_clock 200
       (JObj [(''guid'', JStr ''05024756-765e-41a9-89d7-1407436d9a58''),
              (''school'', JStr ''Iowa State University'')]) \<and>
   isValidGuid (JStr ''05024756-765E-41A9-89D7-1407436D9A58'') \<and>
   fst (app (example_runtime example_content (Inr (JArr example_records))) example_clock
     \<lparr>req_method = ''GET'', req_url = ''/05024756-765E-41A9-89D7-1407436D9A58''\<rparr>) =
     response_of example_clock 404
       (envelope ''Item not found: 05024756-765E-41A9-89D7-1407436D9A58'' 404
          (request_id example_clock))"
proof -
  let ?rt = "example_runtime example_content (Inr (JArr example_records))"
  have l: "fst (loadData ?rt) = Inr (JArr example_records)"
    by (simp add: example_loadData)
  have split: "example_records =
      [JObj [(''school'', JStr ''Drake University'')]] @
      JObj [(''guid'', JStr ''05024756-765e-41a9-89d7-1407436d9a58''),
            (''school'', JStr ''Iowa State University'')] #
      [JObj [(''guid'', JStr ''05024756-765e-41a9-89d7-1407436d9a58''),
             (''school'', JStr ''University of Iowa'')]] \<and>
     (\<forall>x\<in>set [JObj [(''school'', JStr ''Drake University'')]].
        \<not> nullish x \<and> \<not> has_guid x ''05024756-765e-41a9-89d7-1407436d9a58'') \<and>
     has_guid (JObj [(''guid'', JStr ''05024756-765e-41a9-89d7-1407436d9a58''),
                     (''school'', JStr ''Iowa State University'')])
       ''05024756-765e-41a9-89d7-1407436d9a58''"
    by (simp add: example_records_def nullish_def has_guid_def)
  have none: "\<forall>x\<in>set example_records.
      \<not> nullish x \<and> \<not> has_guid x ''05024756-765E-41A9-89D7-1407436D9A58''"
    by (simp add: example_records_def nullish_def has_guid_def)
  have found:
    "fst (app ?rt example_clock
       \<lparr>req_method = ''GET'', req_url = ''/05024756-765e-41a9-89d7-1407436d9a58''\<rparr>) =
     response_of example_clock 200
       (JObj [(''guid'', JStr ''05024756-765e-41a9-89d7-1407436d9a58''),
              (''school'', JStr ''Iowa State University'')])"
    using getItemByGuid_first_match[OF example_guid_valid example_dispatch_guid l,
        of example_clock] split
    by blast
  have missing:
    "fst (app ?rt example_clock
       \<lparr>req_method = ''GET'', req_url = ''/05024756-765E-41A9-89D7-1407436D9A58''\<rparr>) =
     response_of example_clock 404
       (envelope (''Item not found: '' @ ''05024756-765E-41A9-89D7-1407436D9A58'') 404
          (request_id example_clock))"
    using getItemByGuid_first_match[OF example_upper_guid_valid example_dispatch_upper_guid l,
        of example_clock] none
    by blast
  from example_guid_valid example_dispatch_guid l found example_upper_guid_valid missing
  show ?thesis by simp
qed

text \<open>
  Claim C10, as the code has it. For a well-formed identifier and a dataset array, an
  element that is not null and whose \<^verbatim>\<open>guid\<close> is missing or is not the identifier
  (an object without the field or with a field that is no string, a number, a string, a
  boolean, an array) is passed over without an error: when no element before the first
  match is null, the result is the first record whose \<^verbatim>\<open>guid\<close> is the identifier,
  or the not-found error when there is none. A null element that the scan reaches makes
  the handler fail with the type error of \<^verbatim>\<open>item.guid\<close>.
\<close>

theorem getItemByGuid_skips_other_elements:
  assumes "isValidGuid (JStr guid)"
    and "fst (loadData rt) = Inr (JArr items)"
    and "dispatch rt req = RouteGetItem guid"
  shows
    "((\<forall>x\<in>set (takeWhile (\<lambda>x. \<not> has_guid x guid) items). \<not> nullish x) \<longrightarrow>
        fst (getItemByGuid rt guid) =
          (case filter (\<lambda>x. has_guid x guid) items of
             [] \<Rightarrow> Next (NotFoundError (''Item not found: '' @ guid))
           | r # rs \<Rightarrow> Respond 200 r)) \<and>
     (\<forall>pre post.
        items = pre @ JNull # post \<and> (\<forall>x\<in>set pre. \<not> nullish x \<and> \<not> has_guid x guid) \<longrightarrow>
        (\<exists>msg. fst (getItemByGuid rt guid) = Next (TypeError msg)) \<and>
        res_statusCode (fst (app rt clk req)) = 500)"
proof (intro conjI allI impI)
  assume "\<forall>x\<in>set (takeWhile (\<lambda>x. \<not> has_guid x guid) items). \<not> nullish x"
  then have found: "array_find (item_guid_equals guid) items =
      Inr (case filter (\<lambda>x. has_guid x guid) items of [] \<Rightarrow> JUndefined | r # rs \<Rightarrow> r)"
    by (rule array_find_first_match)
  show "fst (getItemByGuid rt guid) =
      (case filter (\<lambda>x. has_guid x guid) items of
         [] \<Rightarrow> Next (NotFoundError (''Item not found: '' @ guid))
       | r # rs \<Rightarrow> Respond 200 r)"
  proof (cases "filter (\<lambda>x. has_guid x guid) items")
    case Nil
    then show ?thesis
      using getItemByGuid_array[OF assms(1,2)] found by simp
  next
    case (Cons r rs)
    then have "r \<in> set (filter (\<lambda>x. has_guid x guid) items)"
      by simp
    then have "truthy r"
      using has_guid_truthy[of r guid] by simp
    then show ?thesis
      using getItemByGuid_array[OF assms(1,2)] found Cons by (simp add: HTTP_STATUS_OK_def)
  qed
next
  fix pre post
  assume h: "items = pre @ JNull # post \<and> (\<forall>x\<in>set pre. \<not> nullish x \<and> \<not> has_guid x guid)"
  then have "array_find (item_guid_equals guid) items =
      Inl (TypeError ''Cannot read properties of null (reading 'guid')'')"
    by (simp add: array_find_skip item_guid_equals_null)
  then have n: "fst (getItemByGuid rt guid) =
      Next (TypeError ''Cannot read properties of null (reading 'guid')'')"
    using getItemByGuid_array[OF assms(1,2)] by simp
  then show "\<exists>msg. fst (getItemByGuid rt guid) = Next (TypeError msg)"
    by (rule exI)
  show "res_statusCode (fst (app rt clk req)) = 500"
    using n
    by (simp add: app_response routes_GetItem[OF assms(3)] errorHandler_def Let_def
        TypeError_def HTTP_STATUS_INTERNAL_SERVER_ERROR_def response_of_def)
qed

theorem getItemByGuid_skips_other_elements_witness:
  "isValidGuid (JStr ''05024756-765e-41a9-89d7-1407436d9a58'') \<and>
   fst (loadData (example_runtime example_mixed_content (Inr (JArr example_mixed)))) =
     Inr (JArr example_mixed) \<and>
   list_all (\<lambda>x. \<not> nullish x)
     (takeWhile (\<lambda>x. \<not> has_guid x ''05024756-765e-41a9-89d7-1407436d9a58'')
        example_mixed) \<and>
   fst (getItemByGuid (example_runtime example_mixed_content (Inr (JArr example_mixed)))
          ''05024756-765e-41a9-89d7-1407436d9a58'') =
     Respond 200
       (JObj [(''guid'', JStr ''05024756-765e-41a9-89d7-1407436d9a58''),
              (''school'', JStr ''Iowa State University'')]) \<and>
   fst (loadData (example_runtime ''[5,null,true]''
          (Inr (JArr [JNum 5, JNull, JBool True])))) =
     Inr (JArr [JNum 5, JNull, JBool True]) \<and>
   (\<exists>msg. fst (getItemByGuid (example_runtime ''[5,null,true]''
          (Inr (JArr [JNum 5, JNull, JBool True])))
          ''05024756-765e-41a9-89d7-1407436d9a58'') = Next (TypeError msg))"
proof -
  let ?rt = "example_runtime example_mixed_content (Inr (JArr example_mixed))"
  have l: "fst (loadData ?rt) = Inr (JArr example_mixed)"
    by (simp add: example_loadData)
  have ok: "\<forall>x\<in>set (takeWhile (\<lambda>x. \<not> has_guid x ''05024756-765e-41a9-89d7-1407436d9a58'')
                example_mixed). \<not> nullish x"
    by (simp add: example_mixed_def has_guid_def nullish_def)
  have f: "filter (\<lambda>x. has_guid x ''05024756-765e-41a9-89d7-1407436d9a58'') example_mixed =
      [JObj [(''guid'', JStr ''05024756-765e-41a9-89d7-1407436d9a58''),
             (''school'', JStr ''Iowa State University'')]]"
    by (simp add: example_mixed_def has_guid_def)
  have "fst (getItemByGuid ?rt ''05024756-765e-41a9-89d7-1407436d9a58'') =
      (case filter (\<lambda>x. has_guid x ''05024756-765e-41a9-89d7-1407436d9a58'') example_mixed of
         [] \<Rightarrow> Next (NotFoundError
                   (''Item not found: '' @ ''05024756-765e-41a9-89d7-1407436d9a58''))
       | r # rs \<Rightarrow> Respond 200 r)"
    using getItemByGuid_skips_other_elements[OF example_guid_valid l example_dispatch_guid]
      ok
    by blast
  then have "fst (getItemByGuid ?rt ''05024756-765e-41a9-89d7-1407436d9a58'') =
      Respond 200
        (JObj [(''guid'', JStr ''05024756-765e-41a9-89d7-1407436d9a58''),
               (''school'', JStr ''Iowa State University'')])"
    unfolding f by simp
  moreover have l2: "fst (loadData (example_runtime ''[5,null,true]''
      (Inr (JArr [JNum 5, JNull, JBool True])))) = Inr (JArr [JNum 5, JNull, JBool True])"
    by (simp add: example_loadData)
  moreover have "\<exists>msg. fst (getItemByGuid (example_runtime ''[5,null,true]''
      (Inr (JArr [JNum 5, JNull, JBool True]))) ''05024756-765e-41a9-89d7-1407436d9a58'') =
      Next (TypeError msg)"
  proof -
    have "[JNum 5, JNull, JBool True] = [JNum 5] @ JNull # [JBool True] \<and>
        (\<forall>x\<in>set [JNum 5]. \<not> nullish x \<and>
           \<not> has_guid x ''05024756-765e-41a9-89d7-1407436d9a58'')"
      by (simp add: nullish_def has_guid_def)
    then show ?thesis
      using getItemByGuid_skips_other_elements[OF example_guid_valid l2 example_dispatch_guid]
      by blast
  qed
  ultimately show ?thesis
    using example_guid_valid l ok by (simp add: list_all_iff)
qed

text \<open>
  Claim C10 as stated fails: in the dataset \<^verbatim>\<open>[null]\<close> the element has no
  \<^verbatim>\<open>guid\<close>, and the lookup of a well-formed identifier ends in status 500.
\<close>

theorem getItemByGuid_null_element_counterexample:
  "isValidGuid (JStr ''05024756-765e-41a9-89d7-1407436d9a58'') \<and>
   fst (loadData (example_runtime ''[null]'' (Inr (JArr [JNull])))) = Inr (JArr [JNull]) \<and>
   dispatch (example_runtime ''[null]'' (Inr (JArr [JNull])))
     \<lparr>req_method = ''GET'', req_url = ''/05024756-765e-41a9-89d7-1407436d9a58''\<rparr> =
     RouteGetItem ''05024756-765e-41a9-89d7-1407436d9a58'' \<and>
   (case fst (getItemByGuid (example_runtime ''[null]'' (Inr (JArr [JNull])))
                ''05024756-765e-41a9-89d7-1407436d9a58'') of
      Respond code body \<Rightarrow> False
    | Next e \<Rightarrow> name e = ''TypeError'' \<and> statusCode e = None) \<and>
   res_statusCode (fst (app (example_runtime ''[null]'' (Inr (JArr [JNull]))) example_clock
     \<lparr>req_method = ''GET'', req_url = ''/05024756-765e-41a9-89d7-1407436d9a58''\<rparr>)) = 500"
proof -
  let ?rt = "example_runtime ''[null]'' (Inr (JArr [JNull]))"
  have l: "fst (loadData ?rt) = Inr (JArr [JNull])"
    by (simp add: example_loadData)
  have g: "fst (getItemByGuid ?rt ''05024756-765e-41a9-89d7-1407436d9a58'') =
      Next (TypeError ''Cannot read properties of null (reading 'guid')'')"
    using getItemByGuid_array[OF example_guid_valid l] by (simp add: item_guid_equals_null)
  have "res_statusCode (fst (app ?rt example_clock
      \<lparr>req_method = ''GET'', req_url = ''/05024756-765e-41a9-89d7-1407436d9a58''\<rparr>)) = 500"
    using g
    by (simp add: app_response routes_GetItem[OF example_dispatch_guid] errorHandler_def Let_def
        TypeError_def HTTP_STATUS_INTERNAL_SERVER_ERROR_def response_of_def)
  with example_guid_valid l g example_dispatch_guid[of "''[null]''" "Inr (JArr [JNull])"]
  show ?thesis by (simp add: TypeError_def)
qed

text \<open>
  Claim C4. For an identifier that the validator rejects, the handler fails with the
  validation error, message \<^verbatim>\<open>Invalid GUID format: \<close> and the identifier, status 400,
  before anything else: the data loader is not called and no file is read.
\<close>

theorem getItemByGuid_rejects_before_load:
  assumes "\<not> isValidGuid (JStr guid)"
  shows
    "getItemByGuid rt guid = (Next (ValidationError (''Invalid GUID format: '' @ guid)), []) \<and>
     statusCode (ValidationError (''Invalid GUID format: '' @ guid)) = Some 400 \<and>
     (dispatch rt req = RouteGetItem guid \<longrightarrow>
        fst (app rt clk req) =
          response_of clk 400 (envelope (''Invalid GUID format: '' @ guid) 400 (request_id clk)) \<and>
        (\<forall>p. ReadFile p \<notin> set (snd (app rt clk req))))"
proof (intro conjI impI)
  show inv: "getItemByGuid rt guid =
      (Next (ValidationError (''Invalid GUID format: '' @ guid)), [])"
    using assms by (rule getItemByGuid_invalid)
  show "statusCode (ValidationError (''Invalid GUID format: '' @ guid)) = Some 400"
    by (simp add: ValidationError_def HTTP_STATUS_BAD_REQUEST_def)
  assume d: "dispatch rt req = RouteGetItem guid"
  show "fst (app rt clk req) =
      response_of clk 400 (envelope (''Invalid GUID format: '' @ guid) 400 (request_id clk))"
    by (simp add: app_response routes_GetItem[OF d] inv errorHandler_def Let_def
        ValidationError_def HTTP_STATUS_BAD_REQUEST_def)
  show "\<forall>p. ReadFile p \<notin> set (snd (app rt clk req))"
    by (simp add: app_def routes_GetItem[OF d] inv errorHandler_def Let_def finish_def
        ValidationError_def HTTP_STATUS_BAD_REQUEST_def)
qed

theorem getItemByGuid_rejects_before_load_witness:
  "\<not> isValidGuid (JStr ''favicon.ico'') \<and>
   dispatch (example_runtime example_content (Inr (JArr example_records)))
     \<lparr>req_method = ''GET'', req_url = ''/favicon.ico''\<rparr> = RouteGetItem ''favicon.ico'' \<and>
   fst (app (example_runtime example_content (Inr (JArr example_records))) example_clock
     \<lparr>req_method = ''GET'', req_url = ''/favicon.ico''\<rparr>) =
     response_of example_clock 400
       (envelope ''Invalid GUID format: favicon.ico'' 400 (request_id example_clock)) \<and>
   (\<forall>p. ReadFile p \<notin> set (snd (app (example_runtime example_content
      (Inr (JArr example_records))) example_clock
      \<lparr>req_method = ''GET'', req_url = ''/favicon.ico''\<rparr>)))"
  using getItemByGuid_rejects_before_load[OF example_favicon_invalid,
      of "example_runtime example_content (Inr (JArr example_records))"
         "\<lparr>req_method = ''GET'', req_url = ''/favicon.ico''\<rparr>" example_clock]
    example_favicon_invalid
    example_dispatch_favicon[of example_content "Inr (JArr example_records)"]
  by simp

section \<open>The list handler\<close>

text \<open>
  Claim C6. For a request to the list endpoint: when the data loader succeeds, the
  response has status 200 and its body is the loaded value itself, the array of records
  in the order of the file; when the data loader fails, the error goes to the error
  handler and the response has status 500.
\<close>

theorem getAllData_response:
  assumes "dispatch rt req = RouteGetAll"
  shows
    "(\<forall>data. fst (loadData rt) = Inr data \<longrightarrow>
        fst (app rt clk req) = response_of clk 200 data) \<and>
     (\<forall>fileContent records.
        fs_readFile rt (path_resolve rt (DATA_FILE_PATH rt)) = Inr fileContent \<and>
        JSON_parse rt fileContent = Inr (JArr records) \<longrightarrow>
        fst (app rt clk req) = response_of clk 200 (JArr records)) \<and>
     (\<forall>e. fst (loadData rt) = Inl e \<longrightarrow>
        fst (getAllData rt) = Next e \<and>
        fst (app rt clk req) = response_of clk 500 (envelope (message e) 500 (request_id clk)))"
proof (intro conjI allI impI)
  fix data
  assume "fst (loadData rt) = Inr data"
  then show "fst (app rt clk req) = response_of clk 200 data"
    by (simp add: app_response routes_GetAll[OF assms] getAllData_cases HTTP_STATUS_OK_def)
next
  fix fileContent records
  assume "fs_readFile rt (path_resolve rt (DATA_FILE_PATH rt)) = Inr fileContent \<and>
    JSON_parse rt fileContent = Inr (JArr records)"
  then have "fst (loadData rt) = Inr (JArr records)"
    by (simp add: loadData_cases)
  then show "fst (app rt clk req) = response_of clk 200 (JArr records)"
    by (simp add: app_response routes_GetAll[OF assms] getAllData_cases HTTP_STATUS_OK_def)
next
  fix e
  assume l: "fst (loadData rt) = Inl e"
  then show n: "fst (getAllData rt) = Next e"
    by (simp add: getAllData_cases)
  from l obtain m where "e = Error (''Failed to load data file: '' @ m)"
    using loadData_error by blast
  then have "statusCode e = None" "message e \<noteq> []"
    by (simp_all add: Error_def)
  then have "fst (errorHandler e (request_id clk)) =
      (500, envelope (message e) 500 (request_id clk))"
    using errorHandler_without_code[of e "request_id clk"]
    by (simp add: HTTP_STATUS_INTERNAL_SERVER_ERROR_def)
  then show "fst (app rt clk req) =
      response_of clk 500 (envelope (message e) 500 (request_id clk))"
    using n by (simp add: app_response routes_GetAll[OF assms])
qed

theorem getAllData_response_witness:
  "dispatch (example_runtime example_content (Inr (JArr example_records)))
     \<lparr>req_method = ''GET'', req_url = ''/''\<rparr> = RouteGetAll \<and>
   fst (loadData (example_runtime example_content (Inr (JArr example_records)))) =
     Inr (JArr example_records) \<and>
   fst (app (example_runtime example_content (Inr (JArr example_records))) example_clock
     \<lparr>req_method = ''GET'', req_url = ''/''\<rparr>) =
     response_of example_clock 200 (JArr example_records) \<and>
   dispatch (example_runtime ''['' (Inl ''Unexpected end of JSON input''))
     \<lparr>req_method = ''GET'', req_url = ''/''\<rparr> = RouteGetAll \<and>
   fst (loadData (example_runtime ''['' (Inl ''Unexpected end of JSON input''))) =
     Inl (Error ''Failed to load data file: Unexpected end of JSON input'') \<and>
   fst (app (example_runtime ''['' (Inl ''Unexpected end of JSON input'')) example_clock
     \<lparr>req_method = ''GET'', req_url = ''/''\<rparr>) =
     response_of example_clock 500
       (envelope ''Failed to load data file: Unexpected end of JSON input'' 500
          (request_id example_clock))"
proof -
  have d: "dispatch (example_runtime content parsed)
      \<lparr>req_method = ''GET'', req_url = ''/''\<rparr> = RouteGetAll" for content parsed
    by (simp add: dispatch_def pathname_def plain_target_def handles_method_def
        match_literal_def match_root_def)
  have l1: "fst (loadData (example_runtime example_content (Inr (JArr example_records)))) =
      Inr (JArr example_records)"
    by (simp add: example_loadData)
  have l2: "fst (loadData (example_runtime ''['' (Inl ''Unexpected end of JSON input''))) =
      Inl (Error ''Failed to load data file: Unexpected end of JSON input'')"
    by (simp add: example_loadData_error)
  have a1: "fst (app (example_runtime example_content (Inr (JArr example_records)))
      example_clock \<lparr>req_method = ''GET'', req_url = ''/''\<rparr>) =
      response_of example_clock 200 (JArr example_records)"
    using getAllData_response[OF d, of example_content "Inr (JArr example_records)"
        example_clock] l1
    by blast
  have "fst (app (example_runtime ''['' (Inl ''Unexpected end of JSON input'')) example_clock
      \<lparr>req_method = ''GET'', req_url = ''/''\<rparr>) =
      response_of example_clock 500
        (envelope (message (Error ''Failed to load data file: Unexpected end of JSON input''))
           500 (request_id example_clock))"
    using getAllData_response[OF d, of "''[''" "Inl ''Unexpected end of JSON input''"
        example_clock] l2
    by blast
  then have a2: "fst (app (example_runtime ''['' (Inl ''Unexpected end of JSON input''))
      example_clock \<lparr>req_method = ''GET'', req_url = ''/''\<rparr>) =
      response_of example_clock 500
        (envelope ''Failed to load data file: Unexpected end of JSON input'' 500
           (request_id example_clock))"
    by (simp add: Error_def)
  from d l1 a1 l2 a2 show ?thesis by blast
qed

section \<open>Unmatched routes\<close>

lemma dispatch_RouteNone_iff:
  "dispatch rt req = RouteNone \<longleftrightarrow>
     (case match_param (pathname rt (req_url req)) of
        None \<Rightarrow>
          \<not> handles_method (req_method req) \<or>
          \<not> match_literal ''/health'' (pathname rt (req_url req)) \<and>
          \<not> match_root (pathname rt (req_url req))
      | Some seg \<Rightarrow>
          \<not> handles_method (req_method req) \<and> decodeURIComponent rt seg \<noteq> None)"
  by (auto simp add: dispatch_def Let_def decode_param_def match_root_def match_param_def
      split: option.splits list.splits if_splits)

lemma dispatch_undecodable:
  assumes "\<not> (handles_method (req_method req) \<and>
      match_literal ''/health'' (pathname rt (req_url req)))"
    and "match_param (pathname rt (req_url req)) = Some seg"
    and "decodeURIComponent rt seg = None"
  shows "dispatch rt req =
     RouteParamError \<lparr>name = ''URIError'',
       message = ''Failed to decode param '' @ [CHR 0x27] @ seg @ [CHR 0x27],
       statusCode = Some HTTP_STATUS_BAD_REQUEST\<rparr>"
proof -
  have "\<not> match_root (pathname rt (req_url req))"
    using assms(2) by (auto simp add: match_root_def match_param_def)
  then show ?thesis
    using assms by (auto simp add: dispatch_def Let_def decode_param_def)
qed

lemma app_ParamError:
  assumes "dispatch rt req = RouteParamError e"
  shows "fst (app rt clk req) =
     response_of clk (fst (fst (errorHandler e (request_id clk))))
       (snd (fst (errorHandler e (request_id clk))))"
  using assms by (simp add: app_response routes_def)




section \<open>The error handler\<close>

lemma data_find_error:
  "data_find data (item_guid_equals guid) = Inl e \<Longrightarrow> statusCode e = None \<and> message e \<noteq> []"
  by (cases data) (auto simp add: data_find_def TypeError_def dest: array_find_error)

lemma getItemByGuid_error:
  assumes "fst (getItemByGuid rt guid) = Next e"
  shows "(statusCode e = None \<or> statusCode e = Some 400 \<or> statusCode e = Some 404) \<and>
    message e \<noteq> []"
proof (cases "isValidGuid (JStr guid)")
  case False
  then show ?thesis
    using assms
    by (auto simp add: getItemByGuid_invalid ValidationError_def HTTP_STATUS_BAD_REQUEST_def)
next
  case True
  obtain r evs where l: "loadData rt = (r, evs)"
    by (cases "loadData rt")
  show ?thesis
  proof (cases r)
    case (Inl le)
    then have "fst (loadData rt) = Inl le"
      using l by simp
    then show ?thesis
      using assms getItemByGuid_load_error[OF True, of rt le] loadData_error[of rt le]
      by (auto simp add: Error_def)
  next
    case (Inr data)
    show ?thesis
    proof (cases "data_find data (item_guid_equals guid)")
      case (Inl fe)
      then have "e = fe"
        using assms True l Inr by (simp add: getItemByGuid_def)
      then show ?thesis
        using data_find_error[OF Inl] by simp
    next
      case found: (Inr item)
      then have "e = NotFoundError (''Item not found: '' @ guid)"
        using assms True l Inr by (simp add: getItemByGuid_def split: if_splits)
      then show ?thesis
        by (simp add: NotFoundError_def HTTP_STATUS_NOT_FOUND_def)
    qed
  qed
qed

lemma dispatch_ParamError:
  "dispatch rt req = RouteParamError e \<Longrightarrow> statusCode e = Some 400 \<and> message e \<noteq> []"
  by (auto simp add: dispatch_def Let_def decode_param_def HTTP_STATUS_BAD_REQUEST_def
      split: if_splits option.splits sum.splits)

lemma routes_error:
  assumes "fst (routes rt clk req) = Next e"
  shows "(statusCode e = None \<or> statusCode e = Some 400 \<or> statusCode e = Some 404) \<and>
    message e \<noteq> []"
proof (cases "dispatch rt req")
  case RouteHealth
  then show ?thesis
    using assms by (simp add: routes_def health_def)
next
  case RouteGetAll
  then have "fst (loadData rt) = Inl e"
    using assms by (simp add: routes_def getAllData_cases split: sum.splits)
  then show ?thesis
    using loadData_error[of rt e] by (auto simp add: Error_def)
next
  case (RouteGetItem guid)
  then show ?thesis
    using assms getItemByGuid_error[of rt guid e] by (simp add: routes_def)
next
  case (RouteParamError pe)
  then show ?thesis
    using assms dispatch_ParamError[of rt req pe] by (simp add: routes_def)
next
  case RouteNone
  then show ?thesis
    using assms by (simp add: routes_def notFoundHandler_def)
qed

lemma errorHandler_reached:
  assumes "fst (routes rt clk req) = Next e"
  shows "fst (errorHandler e rid) =
     ((case statusCode e of None \<Rightarrow> 500 | Some c \<Rightarrow> c),
      envelope (message e) (case statusCode e of None \<Rightarrow> 500 | Some c \<Rightarrow> c) rid)"
  using routes_error[OF assms]
  by (auto simp add: errorHandler_def Let_def HTTP_STATUS_INTERNAL_SERVER_ERROR_def)

text \<open>
  Claim C5. An error that reaches the error handler is answered with its own status code
  when it has one and with 500 otherwise, and with its own message, or with
  \<^verbatim>\<open>Internal server error\<close> when it has none; the body is an object with the one key
  \<^verbatim>\<open>error\<close>, whose value has the keys \<^verbatim>\<open>message\<close>, \<^verbatim>\<open>statusCode\<close> and
  \<^verbatim>\<open>requestId\<close>, in this order, with the message, the status code of the response and
  the identifier of the request. The first part is about every error that the routes
  pass on; the other two are about an error value of any origin, without a status code
  or with a status code that a response can carry (an integer from 100 to 999).
\<close>

theorem errorHandler_response:
  "(fst (routes rt clk req) = Next err \<longrightarrow>
      fst (app rt clk req) =
        \<lparr>res_statusCode = (case statusCode err of None \<Rightarrow> 500 | Some c \<Rightarrow> c),
         res_headers = [(''X-Request-ID'', request_id clk)],
         res_body =
           JObj [(''error'',
                  JObj [(''message'', JStr (message err)),
                        (''statusCode'',
                         JNum (of_int (case statusCode err of None \<Rightarrow> 500 | Some c \<Rightarrow> c))),
                        (''requestId'', JStr (request_id clk))])]\<rparr>) \<and>
   (statusCode e = None \<longrightarrow>
      fst (errorHandler e rid) =
        (500,
         JObj [(''error'',
                JObj [(''message'',
                       JStr (if message e = [] then ''Internal server error'' else message e)),
                      (''statusCode'', JNum 500),
                      (''requestId'', JStr rid)])])) \<and>
   (\<forall>c. statusCode e = Some c \<and> 100 \<le> c \<and> c \<le> 999 \<longrightarrow>
      fst (errorHandler e rid) =
        (c,
         JObj [(''error'',
                JObj [(''message'',
                       JStr (if message e = [] then ''Internal server error'' else message e)),
                      (''statusCode'', JNum (of_int c)),
                      (''requestId'', JStr rid)])]))"
proof (intro conjI impI allI)
  assume "fst (routes rt clk req) = Next err"
  then show "fst (app rt clk req) =
      \<lparr>res_statusCode = (case statusCode err of None \<Rightarrow> 500 | Some c \<Rightarrow> c),
       res_headers = [(''X-Request-ID'', request_id clk)],
       res_body =
         JObj [(''error'',
                JObj [(''message'', JStr (message err)),
                      (''statusCode'',
                       JNum (of_int (case statusCode err of None \<Rightarrow> 500 | Some c \<Rightarrow> c))),
                      (''requestId'', JStr (request_id clk))])]\<rparr>"
    using errorHandler_reached[of rt clk req err "request_id clk"]
    by (simp add: app_response response_of_def envelope_shape)
next
  assume "statusCode e = None"
  then show "fst (errorHandler e rid) =
      (500,
       JObj [(''error'',
              JObj [(''message'',
                     JStr (if message e = [] then ''Internal server error'' else message e)),
                    (''statusCode'', JNum 500),
                    (''requestId'', JStr rid)])])"
    by (simp add: errorHandler_def Let_def envelope_shape HTTP_STATUS_INTERNAL_SERVER_ERROR_def)
next
  fix c
  assume "statusCode e = Some c \<and> 100 \<le> c \<and> c \<le> 999"
  then show "fst (errorHandler e rid) =
      (c,
       JObj [(''error'',
              JObj [(''message'',
                     JStr (if message e = [] then ''Internal server error'' else message e)),
                    (''statusCode'', JNum (of_int c)),
                    (''requestId'', JStr rid)])])"
    by (auto simp add: errorHandler_def Let_def envelope_shape
        HTTP_STATUS_INTERNAL_SERVER_ERROR_def)
qed

theorem errorHandler_response_witness:
  "fst (routes (example_runtime example_content (Inr (JArr example_records))) example_clock
     \<lparr>req_method = ''GET'', req_url = ''/favicon.ico''\<rparr>) =
     Next (ValidationError ''Invalid GUID format: favicon.ico'') \<and>
   fst (app (example_runtime example_content (Inr (JArr example_records))) example_clock
     \<lparr>req_method = ''GET'', req_url = ''/favicon.ico''\<rparr>) =
     \<lparr>res_statusCode = 400,
      res_headers = [(''X-Request-ID'', request_id example_clock)],
      res_body =
        JObj [(''error'',
               JObj [(''message'', JStr ''Invalid GUID format: favicon.ico''),
                     (''statusCode'', JNum 400),
                     (''requestId'', JStr (request_id example_clock))])]\<rparr> \<and>
   fst (routes (example_runtime ''['' (Inl ''Unexpected end of JSON input'')) example_clock
     \<lparr>req_method = ''GET'', req_url = ''/05024756-765e-41a9-89d7-1407436d9a58''\<rparr>) =
     Next (Error ''Failed to load data file: Unexpected end of JSON input'') \<and>
   fst (app (example_runtime ''['' (Inl ''Unexpected end of JSON input'')) example_clock
     \<lparr>req_method = ''GET'', req_url = ''/05024756-765e-41a9-89d7-1407436d9a58''\<rparr>) =
     \<lparr>res_statusCode = 500,
      res_headers = [(''X-Request-ID'', request_id example_clock)],
      res_body =
        JObj [(''error'',
               JObj [(''message'',
                      JStr ''Failed to load data file: Unexpected end of JSON input''),
                     (''statusCode'', JNum 500),
                     (''requestId'', JStr (request_id example_clock))])]\<rparr> \<and>
   fst (errorHandler \<lparr>name = ''Error'', message = [], statusCode = None\<rparr> ''17-4fzyo82mv'') =
     (500,
      JObj [(''error'',
             JObj [(''message'', JStr ''Internal server error''),
                   (''statusCode'', JNum 500),
                   (''requestId'', JStr ''17-4fzyo82mv'')])]) \<and>
   fst (errorHandler (NotFoundError ''Item not found: 05024756-765e-41a9-89d7-1407436d9a59'')
          ''17-4fzyo82mv'') =
     (404,
      JObj [(''error'',
             JObj [(''message'',
                    JStr ''Item not found: 05024756-765e-41a9-89d7-1407436d9a59''),
                   (''statusCode'', JNum 404),
                   (''requestId'', JStr ''17-4fzyo82mv'')])])"
proof -
  let ?rt1 = "example_runtime example_content (Inr (JArr example_records))"
  let ?rq1 = "\<lparr>req_method = ''GET'', req_url = ''/favicon.ico''\<rparr>"
  let ?rt2 = "example_runtime ''['' (Inl ''Unexpected end of JSON input'')"
  let ?rq2 = "\<lparr>req_method = ''GET'', req_url = ''/05024756-765e-41a9-89d7-1407436d9a58''\<rparr>"
  let ?e3 = "\<lparr>name = ''Error'', message = [], statusCode = None\<rparr>"
  let ?e4 = "NotFoundError ''Item not found: 05024756-765e-41a9-89d7-1407436d9a59''"
  have r1: "fst (routes ?rt1 example_clock ?rq1) =
      Next (ValidationError ''Invalid GUID format: favicon.ico'')"
    using getItemByGuid_invalid[OF example_favicon_invalid, of ?rt1]
    by (simp add: routes_GetItem[OF example_dispatch_favicon])
  have r2: "fst (routes ?rt2 example_clock ?rq2) =
      Next (Error ''Failed to load data file: Unexpected end of JSON input'')"
    using getItemByGuid_load_error[OF example_guid_valid, of ?rt2
        "Error ''Failed to load data file: Unexpected end of JSON input''"]
    by (simp add: routes_GetItem[OF example_dispatch_guid] example_loadData_error)
  have a1: "fst (app ?rt1 example_clock ?rq1) =
     \<lparr>res_statusCode = 400,
      res_headers = [(''X-Request-ID'', request_id example_clock)],
      res_body =
        JObj [(''error'',
               JObj [(''message'', JStr ''Invalid GUID format: favicon.ico''),
                     (''statusCode'', JNum 400),
                     (''requestId'', JStr (request_id example_clock))])]\<rparr>"
    using errorHandler_response[of ?rt1 example_clock ?rq1
        "ValidationError ''Invalid GUID format: favicon.ico''"] r1
    by (simp add: ValidationError_def HTTP_STATUS_BAD_REQUEST_def)
  have a2: "fst (app ?rt2 example_clock ?rq2) =
     \<lparr>res_statusCode = 500,
      res_headers = [(''X-Request-ID'', request_id example_clock)],
      res_body =
        JObj [(''error'',
               JObj [(''message'',
                      JStr ''Failed to load data file: Unexpected end of JSON input''),
                     (''statusCode'', JNum 500),
                     (''requestId'', JStr (request_id example_clock))])]\<rparr>"
    using errorHandler_response[of ?rt2 example_clock ?rq2
        "Error ''Failed to load data file: Unexpected end of JSON input''"] r2
    by (simp add: Error_def)
  have a3: "fst (errorHandler ?e3 ''17-4fzyo82mv'') =
     (500,
      JObj [(''error'',
             JObj [(''message'', JStr ''Internal server error''),
                   (''statusCode'', JNum 500),
                   (''requestId'', JStr ''17-4fzyo82mv'')])])"
    using errorHandler_response[of ?rt1 example_clock ?rq1
        "ValidationError ''Invalid GUID format: favicon.ico''" ?e3 "''17-4fzyo82mv''"]
    by simp
  have a4: "fst (errorHandler ?e4 ''17-4fzyo82mv'') =
     (404,
      JObj [(''error'',
             JObj [(''message'',
                    JStr ''Item not found: 05024756-765e-41a9-89d7-1407436d9a59''),
                   (''statusCode'', JNum 404),
                   (''requestId'', JStr ''17-4fzyo82mv'')])])"
    using errorHandler_response[of ?rt1 example_clock ?rq1
        "ValidationError ''Invalid GUID format: favicon.ico''" ?e4 "''17-4fzyo82mv''"]
    by (simp add: NotFoundError_def HTTP_STATUS_NOT_FOUND_def)
  from r1 a1 r2 a2 a3 a4 show ?thesis by blast
qed

section \<open>Two runs on the same file\<close>

lemma loadData_same_file:
  "f (path_resolve rt (DATA_FILE_PATH rt)) = fs_readFile rt (path_resolve rt (DATA_FILE_PATH rt))
     \<Longrightarrow> loadData (rt\<lparr>fs_readFile := f\<rparr>) = loadData rt"
  by (simp add: loadData_def DATA_FILE_PATH_def Let_def split: sum.splits)

lemma dispatch_same_file: "dispatch (rt\<lparr>fs_readFile := f\<rparr>) req = dispatch rt req"
  by (simp add: dispatch_def pathname_def decode_param_def Let_def split: option.splits)

lemma routes_same_file:
  assumes "dispatch rt req = RouteGetAll \<or> dispatch rt req = RouteGetItem guid"
    and "f (path_resolve rt (DATA_FILE_PATH rt)) =
      fs_readFile rt (path_resolve rt (DATA_FILE_PATH rt))"
  shows "routes (rt\<lparr>fs_readFile := f\<rparr>) clk2 req = routes rt clk1 req"
  using assms(1) loadData_same_file[of f rt, OF assms(2)]
  by (auto simp add: routes_def dispatch_same_file getAllData_def getItemByGuid_def)

text \<open>
  Claim C8. Two runs of the list handler or of the get-by-identifier handler on the same
  request, in two states of the file system in which the dataset file has the same
  content, at different times and with different random numbers: the status codes are
  equal, and the bodies are equal or are the error envelopes of one message and one
  status code that differ in the identifier of the request only.
\<close>

theorem response_same_except_request_id:
  assumes "dispatch rt req = RouteGetAll \<or> dispatch rt req = RouteGetItem guid"
    and "f (path_resolve rt (DATA_FILE_PATH rt)) =
      fs_readFile rt (path_resolve rt (DATA_FILE_PATH rt))"
  shows
    "res_statusCode (fst (app (rt\<lparr>fs_readFile := f\<rparr>) clk2 req)) =
       res_statusCode (fst (app rt clk1 req)) \<and>
     (res_body (fst (app (rt\<lparr>fs_readFile := f\<rparr>) clk2 req)) = res_body (fst (app rt clk1 req)) \<or>
      (\<exists>msg. res_body (fst (app rt clk1 req)) =
                envelope msg (res_statusCode (fst (app rt clk1 req))) (request_id clk1) \<and>
              res_body (fst (app (rt\<lparr>fs_readFile := f\<rparr>) clk2 req)) =
                envelope msg (res_statusCode (fst (app rt clk1 req))) (request_id clk2)))"
proof (cases "fst (routes rt clk1 req)")
  case (Respond code body)
  then have "fst (routes (rt\<lparr>fs_readFile := f\<rparr>) clk2 req) = Respond code body"
    using routes_same_file[of rt req guid f clk2 clk1, OF assms] by simp
  with Respond show ?thesis
    by (simp add: app_response response_of_def)
next
  case (Next e)
  then have n2: "fst (routes (rt\<lparr>fs_readFile := f\<rparr>) clk2 req) = Next e"
    using routes_same_file[of rt req guid f clk2 clk1, OF assms] by simp
  show ?thesis
    using errorHandler_reached[OF Next, of "request_id clk1"]
      errorHandler_reached[OF Next, of "request_id clk2"] Next n2
    by (auto simp add: app_response response_of_def)
qed

theorem response_same_except_request_id_witness:
  "dispatch (example_runtime example_content (Inr (JArr example_records)))
     \<lparr>req_method = ''GET'', req_url = ''/05024756-765e-41a9-89d7-1407436d9a58''\<rparr> =
     RouteGetItem ''05024756-765e-41a9-89d7-1407436d9a58'' \<and>
   example_other_files
     (path_resolve (example_runtime example_content (Inr (JArr example_records)))
        (DATA_FILE_PATH (example_runtime example_content (Inr (JArr example_records))))) =
   fs_readFile (example_runtime example_content (Inr (JArr example_records)))
     (path_resolve (example_runtime example_content (Inr (JArr example_records)))
        (DATA_FILE_PATH (example_runtime example_content (Inr (JArr example_records))))) \<and>
   res_statusCode (fst (app
     ((example_runtime example_content (Inr (JArr example_records)))
        \<lparr>fs_readFile := example_other_files\<rparr>)
     example_clock_later
     \<lparr>req_method = ''GET'', req_url = ''/05024756-765e-41a9-89d7-1407436d9a58''\<rparr>)) =
   res_statusCode (fst (app (example_runtime example_content (Inr (JArr example_records)))
     example_clock
     \<lparr>req_method = ''GET'', req_url = ''/05024756-765e-41a9-89d7-1407436d9a58''\<rparr>))"
proof -
  let ?rt = "example_runtime example_content (Inr (JArr example_records))"
  have same: "example_other_files (path_resolve ?rt (DATA_FILE_PATH ?rt)) =
      fs_readFile ?rt (path_resolve ?rt (DATA_FILE_PATH ?rt))"
    by (simp add: example_other_files_def example_runtime_def DATA_FILE_PATH_def
        DEFAULT_DATA_FILE_def)
  show ?thesis
    using response_same_except_request_id[of ?rt
        "\<lparr>req_method = ''GET'', req_url = ''/05024756-765e-41a9-89d7-1407436d9a58''\<rparr>"
        "''05024756-765e-41a9-89d7-1407436d9a58''" example_other_files example_clock_later
        example_clock]
      example_dispatch_guid[of example_content "Inr (JArr example_records)"] same
    by simp
qed

section \<open>Which route takes a request\<close>

lemma match_param_None:
  "match_param (CHR ''/'' # rest) = None \<longleftrightarrow>
     rest = [] \<or> rest = ''/'' \<or> CHR ''/'' \<in> set (butlast rest)"
proof (cases rest rule: rev_cases)
  case Nil
  then show ?thesis by (simp add: match_param_def)
next
  case (snoc b l)
  then show ?thesis
    by (cases "l = CHR ''/''") (auto simp add: match_param_def Let_def)
qed

lemma toUpperCase_eq_iff:
  "toUpperCase c = toUpperCase d \<longleftrightarrow>
     (of_char (toUpperCase c) :: nat) = of_char (toUpperCase d)"
  by (simp only: of_char_eq_iff)

text \<open>
  Claim C9 as stated fails: the path \<^verbatim>\<open>/HEALTH\<close> is one segment and is not
  \<^verbatim>\<open>/health\<close>, and a GET request for it is answered by the health route with status
  200, not by the get-by-identifier handler.
\<close>

theorem dispatch_health_case_counterexample:
  "''/HEALTH'' \<noteq> ''/health'' \<and>
   match_param
     (pathname (example_runtime example_content (Inr (JArr example_records))) ''/HEALTH'') =
     Some ''HEALTH'' \<and>
   dispatch (example_runtime example_content (Inr (JArr example_records)))
     \<lparr>req_method = ''GET'', req_url = ''/HEALTH''\<rparr> = RouteHealth \<and>
   fst (app (example_runtime example_content (Inr (JArr example_records))) example_clock
     \<lparr>req_method = ''GET'', req_url = ''/HEALTH''\<rparr>) =
     \<lparr>res_statusCode = 200,
      res_headers = [(''X-Request-ID'', request_id example_clock)],
      res_body =
        JObj [(''status'', JStr ''ok''), (''timestamp'', JStr ''2023-11-14T22:13:20.000Z'')]\<rparr>"
proof -
  let ?rt = "example_runtime example_content (Inr (JArr example_records))"
  have d: "dispatch ?rt \<lparr>req_method = ''GET'', req_url = ''/HEALTH''\<rparr> = RouteHealth"
    by (simp add: dispatch_def pathname_def plain_target_def handles_method_def
        match_literal_def toUpperCase_eq_iff of_char_toUpperCase)
  have p: "match_param (pathname ?rt ''/HEALTH'') = Some ''HEALTH''"
    by (simp add: pathname_def plain_target_def match_param_def)
  show ?thesis
    using d p
    by (simp add: app_response routes_def health_def example_clock_def HTTP_STATUS_OK_def
        response_of_def)
qed

text \<open>
  Claim C9, as the code has it. The path of a request is the one that Express finds in
  its target. A GET or HEAD request whose path is a slash, one non-empty segment and at
  most one trailing slash goes to the get-by-identifier handler with the decoded segment,
  unless the path is that of the health route, which is compared without regard to
  letter case and with the optional trailing slash, or the segment does not decode; so a
  malformed path of one segment such as \<^verbatim>\<open>/favicon.ico\<close> is answered with the
  validation error and status 400, not with the 404 of unmatched routes. A segment that
  does not decode is answered with status 400 and the message of the decoding error. A
  GET or HEAD request reaches the handler of unmatched routes exactly when its path is
  not that of the health route, not the root and not of this shape; and a path that
  starts with a slash is not of this shape exactly when the rest of it is empty, is a
  single slash or has a slash before its last character.
\<close>

theorem dispatch_single_segment:
  "(handles_method (req_method req) \<and>
    match_param (pathname rt (req_url req)) = Some seg \<and>
    \<not> match_literal ''/health'' (pathname rt (req_url req)) \<and>
    decodeURIComponent rt seg = Some guid \<longrightarrow>
      dispatch rt req = RouteGetItem guid \<and>
      routes rt clk req = getItemByGuid rt guid \<and>
      (\<not> isValidGuid (JStr guid) \<longrightarrow>
         fst (app rt clk req) =
           \<lparr>res_statusCode = 400,
            res_headers = [(''X-Request-ID'', request_id clk)],
            res_body =
              JObj [(''error'',
                     JObj [(''message'', JStr (''Invalid GUID format: '' @ guid)),
                           (''statusCode'', JNum 400),
                           (''requestId'', JStr (request_id clk))])]\<rparr>)) \<and>
   (handles_method (req_method req) \<and>
    match_literal ''/health'' (pathname rt (req_url req)) \<longrightarrow>
      dispatch rt req = RouteHealth) \<and>
   (match_param (pathname rt (req_url req)) = Some seg \<and>
    \<not> (handles_method (req_method req) \<and>
       match_literal ''/health'' (pathname rt (req_url req))) \<and>
    decodeURIComponent rt seg = None \<longrightarrow>
      fst (app rt clk req) =
        \<lparr>res_statusCode = 400,
         res_headers = [(''X-Request-ID'', request_id clk)],
         res_body =
           JObj [(''error'',
                  JObj [(''message'',
                         JStr (''Failed to decode param '' @ [CHR 0x27] @ seg @ [CHR 0x27])),
                        (''statusCode'', JNum 400),
                        (''requestId'', JStr (request_id clk))])]\<rparr>) \<and>
   (handles_method (req_method req) \<longrightarrow>
      (dispatch rt req = RouteNone \<longleftrightarrow>
         \<not> match_literal ''/health'' (pathname rt (req_url req)) \<and>
         \<not> match_root (pathname rt (req_url req)) \<and>
         match_param (pathname rt (req_url req)) = None)) \<and>
   (\<forall>rest. match_param (CHR ''/'' # rest) = None \<longleftrightarrow>
      rest = [] \<or> rest = ''/'' \<or> CHR ''/'' \<in> set (butlast rest))"
proof (intro conjI impI allI)
  assume h: "handles_method (req_method req) \<and>
    match_param (pathname rt (req_url req)) = Some seg \<and>
    \<not> match_literal ''/health'' (pathname rt (req_url req)) \<and>
    decodeURIComponent rt seg = Some guid"
  then have nr: "\<not> match_root (pathname rt (req_url req))"
    by (auto simp add: match_root_def match_param_def)
  with h show d: "dispatch rt req = RouteGetItem guid"
    by (simp add: dispatch_def Let_def decode_param_def)
  then show "routes rt clk req = getItemByGuid rt guid"
    by (rule routes_GetItem)
  assume "\<not> isValidGuid (JStr guid)"
  then show "fst (app rt clk req) =
      \<lparr>res_statusCode = 400,
       res_headers = [(''X-Request-ID'', request_id clk)],
       res_body =
         JObj [(''error'',
                JObj [(''message'', JStr (''Invalid GUID format: '' @ guid)),
                      (''statusCode'', JNum 400),
                      (''requestId'', JStr (request_id clk))])]\<rparr>"
    by (simp add: app_response routes_GetItem[OF d] getItemByGuid_invalid errorHandler_def
        Let_def ValidationError_def HTTP_STATUS_BAD_REQUEST_def response_of_def
        envelope_shape)
next
  assume "handles_method (req_method req) \<and>
    match_literal ''/health'' (pathname rt (req_url req))"
  then show "dispatch rt req = RouteHealth"
    by (simp add: dispatch_def Let_def)
next
  assume h: "match_param (pathname rt (req_url req)) = Some seg \<and>
    \<not> (handles_method (req_method req) \<and>
       match_literal ''/health'' (pathname rt (req_url req))) \<and>
    decodeURIComponent rt seg = None"
  then have "dispatch rt req =
      RouteParamError \<lparr>name = ''URIError'',
        message = ''Failed to decode param '' @ [CHR 0x27] @ seg @ [CHR 0x27],
        statusCode = Some HTTP_STATUS_BAD_REQUEST\<rparr>"
    using dispatch_undecodable[of req rt seg] by simp
  then show "fst (app rt clk req) =
      \<lparr>res_statusCode = 400,
       res_headers = [(''X-Request-ID'', request_id clk)],
       res_body =
         JObj [(''error'',
                JObj [(''message'',
                       JStr (''Failed to decode param '' @ [CHR 0x27] @ seg @ [CHR 0x27])),
                      (''statusCode'', JNum 400),
                      (''requestId'', JStr (request_id clk))])]\<rparr>"
    by (simp add: app_ParamError errorHandler_def Let_def envelope_shape response_of_def
        HTTP_STATUS_BAD_REQUEST_def)
next
  assume "handles_method (req_method req)"
  then show "dispatch rt req = RouteNone \<longleftrightarrow>
      \<not> match_literal ''/health'' (pathname rt (req_url req)) \<and>
      \<not> match_root (pathname rt (req_url req)) \<and>
      match_param (pathname rt (req_url req)) = None"
    by (auto simp add: dispatch_RouteNone_iff split: option.splits)
next
  fix rest
  show "match_param (CHR ''/'' # rest) = None \<longleftrightarrow>
      rest = [] \<or> rest = ''/'' \<or> CHR ''/'' \<in> set (butlast rest)"
    by (rule match_param_None)
qed

theorem dispatch_single_segment_witness:
  "handles_method ''GET'' \<and>
   match_param
     (pathname (example_runtime example_content (Inr (JArr example_records)))
        ''/favicon.ico'') = Some ''favicon.ico'' \<and>
   \<not> match_literal ''/health''
     (pathname (example_runtime example_content (Inr (JArr example_records)))
        ''/favicon.ico'') \<and>
   decodeURIComponent (example_runtime example_content (Inr (JArr example_records)))
     ''favicon.ico'' = Some ''favicon.ico'' \<and>
   \<not> isValidGuid (JStr ''favicon.ico'') \<and>
   dispatch (example_runtime example_content (Inr (JArr example_records)))
     \<lparr>req_method = ''GET'', req_url = ''/favicon.ico''\<rparr> = RouteGetItem ''favicon.ico'' \<and>
   fst (app (example_runtime example_content (Inr (JArr example_records))) example_clock
     \<lparr>req_method = ''GET'', req_url = ''/favicon.ico''\<rparr>) =
     \<lparr>res_statusCode = 400,
      res_headers = [(''X-Request-ID'', request_id example_clock)],
      res_body =
        JObj [(''error'',
               JObj [(''message'', JStr ''Invalid GUID format: favicon.ico''),
                     (''statusCode'', JNum 400),
                     (''requestId'', JStr (request_id example_clock))])]\<rparr> \<and>
   match_param
     (pathname (example_runtime example_content (Inr (JArr example_records)))
        ''/nonexistent/route'') = None \<and>
   dispatch (example_runtime example_content (Inr (JArr example_records)))
     \<lparr>req_method = ''GET'', req_url = ''/nonexistent/route''\<rparr> = RouteNone \<and>
   match_literal ''/health''
     (pathname (example_runtime example_content (Inr (JArr example_records)))
        ''/Health/?verbose=1'') \<and>
   dispatch (example_runtime example_content (Inr (JArr example_records)))
     \<lparr>req_method = ''GET'', req_url = ''/Health/?verbose=1''\<rparr> = RouteHealth \<and>
   match_literal ''/health''
     (pathname (example_runtime example_content (Inr (JArr example_records)))
        ''/health#top'') \<and>
   dispatch (example_runtime example_content (Inr (JArr example_records)))
     \<lparr>req_method = ''GET'', req_url = ''/health#top''\<rparr> = RouteHealth \<and>
   match_param
     (pathname (example_runtime example_content (Inr (JArr example_records))) ''/%zz'') =
     Some ''%zz'' \<and>
   decodeURIComponent (example_runtime example_content (Inr (JArr example_records)))
     ''%zz'' = None \<and>
   res_statusCode (fst (app (example_runtime example_content (Inr (JArr example_records)))
     example_clock \<lparr>req_method = ''GET'', req_url = ''/%zz''\<rparr>)) = 400"
proof -
  let ?rt = "example_runtime example_content (Inr (JArr example_records))"
  let ?rq = "\<lparr>req_method = ''GET'', req_url = ''/favicon.ico''\<rparr>"
  let ?rq2 = "\<lparr>req_method = ''GET'', req_url = ''/nonexistent/route''\<rparr>"
  let ?rq3 = "\<lparr>req_method = ''GET'', req_url = ''/Health/?verbose=1''\<rparr>"
  let ?rq4 = "\<lparr>req_method = ''GET'', req_url = ''/health#top''\<rparr>"
  let ?rq5 = "\<lparr>req_method = ''GET'', req_url = ''/%zz''\<rparr>"
  have m: "handles_method ''GET''"
    by (simp add: handles_method_def)
  have p: "match_param (pathname ?rt ''/favicon.ico'') = Some ''favicon.ico''"
    by (simp add: pathname_def plain_target_def match_param_def)
  have h: "\<not> match_literal ''/health'' (pathname ?rt ''/favicon.ico'')"
    by (simp add: pathname_def plain_target_def match_literal_def)
  have dc: "decodeURIComponent ?rt ''favicon.ico'' = Some ''favicon.ico''"
    by (simp add: example_runtime_def)
  have a: "dispatch ?rt ?rq = RouteGetItem ''favicon.ico'' \<and>
      fst (app ?rt example_clock ?rq) =
        \<lparr>res_statusCode = 400,
         res_headers = [(''X-Request-ID'', request_id example_clock)],
         res_body =
           JObj [(''error'',
                  JObj [(''message'', JStr ''Invalid GUID format: favicon.ico''),
                        (''statusCode'', JNum 400),
                        (''requestId'', JStr (request_id example_clock))])]\<rparr>"
    using dispatch_single_segment[of ?rq ?rt "''favicon.ico''" "''favicon.ico''" example_clock]
      m p h dc example_favicon_invalid
    by simp
  have p2: "match_param (pathname ?rt ''/nonexistent/route'') = None"
    by (simp add: pathname_def plain_target_def match_param_def)
  have h2: "\<not> match_literal ''/health'' (pathname ?rt ''/nonexistent/route'')"
    by (simp add: pathname_def plain_target_def match_literal_def)
  have r2: "\<not> match_root (pathname ?rt ''/nonexistent/route'')"
    by (simp add: pathname_def plain_target_def match_root_def)
  have b: "dispatch ?rt ?rq2 = RouteNone"
    using dispatch_single_segment[of ?rq2 ?rt "''x''" "''x''" example_clock] m p2 h2 r2
    by simp
  have h3: "match_literal ''/health'' (pathname ?rt ''/Health/?verbose=1'')"
    by (simp add: pathname_def plain_target_def match_literal_def toUpperCase_eq_iff
        of_char_toUpperCase)
  have c: "dispatch ?rt ?rq3 = RouteHealth"
    using dispatch_single_segment[of ?rq3 ?rt "''x''" "''x''" example_clock] m h3
    by simp
  have h4: "match_literal ''/health'' (pathname ?rt ''/health#top'')"
    by (simp add: pathname_def plain_target_def example_runtime_def match_literal_def)
  have c4: "dispatch ?rt ?rq4 = RouteHealth"
    using dispatch_single_segment[of ?rq4 ?rt "''x''" "''x''" example_clock] m h4
    by simp
  have pz: "match_param (pathname ?rt ''/%zz'') = Some ''%zz''"
    by (simp add: pathname_def plain_target_def match_param_def)
  have hz: "\<not> match_literal ''/health'' (pathname ?rt ''/%zz'')"
    by (simp add: pathname_def plain_target_def match_literal_def)
  have dz: "decodeURIComponent ?rt ''%zz'' = None"
    by (simp add: example_runtime_def)
  have e: "res_statusCode (fst (app ?rt example_clock ?rq5)) = 400"
    using dispatch_single_segment[of ?rq5 ?rt "''%zz''" "''x''" example_clock] pz hz dz
    by simp
  from m p h dc example_favicon_invalid a p2 b h3 c h4 c4 pz dz e show ?thesis by simp
qed

end
